theory Spec2Isabelle
  imports Complex_Main "HOL-Library.Sublist"
begin

section \<open>Go values used by the program\<close>

subsection \<open>float64\<close>

text \<open>
  Go's \<^verbatim>\<open>float64\<close> is IEEE 754 binary64. A value is a finite real, an infinity or
  NaN. The sign of zero is not modelled: the only operation of the program that
  could tell the two zeros apart is the division in \<^verbatim>\<open>CalculateSimilarity\<close>, and
  its divisor is a product of square roots of sums of squares starting from
  \<^verbatim>\<open>+0\<close>, which is never \<^verbatim>\<open>-0\<close>. Every operation rounds its exact result on
  its own (no multiplication is fused with an addition).
\<close>

datatype float64 = Fin real | PInf | NInf | NaN

definition round_half_even :: "real \<Rightarrow> int" where
  "round_half_even q =
     (let f = \<lfloor>q\<rfloor>; d = q - of_int f
      in if d < 1 / 2 then f else if 1 / 2 < d then f + 1
         else if even f then f else f + 1)"

definition round64 :: "real \<Rightarrow> float64" where
  \<comment> \<open>Round to nearest, ties to even, 53 significant bits, least exponent
      \<open>-1074\<close>; a result of magnitude \<open>2 ^ 1024\<close> or more overflows.\<close>
  "round64 x =
     (if x = 0 then Fin 0
      else let e = max (\<lfloor>log 2 \<bar>x\<bar>\<rfloor> - 52) (- 1074);
               y = of_int (round_half_even (x / 2 powi e)) * 2 powi e
           in if 2 ^ 1024 \<le> y then PInf
              else if y \<le> - (2 ^ 1024) then NInf
              else Fin y)"

fun fadd :: "float64 \<Rightarrow> float64 \<Rightarrow> float64" where
  "fadd NaN _ = NaN"
| "fadd _ NaN = NaN"
| "fadd PInf NInf = NaN"
| "fadd NInf PInf = NaN"
| "fadd PInf _ = PInf"
| "fadd _ PInf = PInf"
| "fadd NInf _ = NInf"
| "fadd _ NInf = NInf"
| "fadd (Fin x) (Fin y) = round64 (x + y)"

definition inf_of_sign :: "real \<Rightarrow> float64" where
  \<comment> \<open>The infinity with the sign of \<open>x\<close>; NaN when \<open>x\<close> is zero.\<close>
  "inf_of_sign x = (if 0 < x then PInf else if x < 0 then NInf else NaN)"

fun fmul :: "float64 \<Rightarrow> float64 \<Rightarrow> float64" where
  "fmul NaN _ = NaN"
| "fmul _ NaN = NaN"
| "fmul PInf PInf = PInf"
| "fmul PInf NInf = NInf"
| "fmul NInf PInf = NInf"
| "fmul NInf NInf = PInf"
| "fmul PInf (Fin y) = inf_of_sign y"
| "fmul NInf (Fin y) = inf_of_sign (- y)"
| "fmul (Fin x) PInf = inf_of_sign x"
| "fmul (Fin x) NInf = inf_of_sign (- x)"
| "fmul (Fin x) (Fin y) = round64 (x * y)"

fun fdiv :: "float64 \<Rightarrow> float64 \<Rightarrow> float64" where
  "fdiv NaN _ = NaN"
| "fdiv _ NaN = NaN"
| "fdiv PInf PInf = NaN"
| "fdiv PInf NInf = NaN"
| "fdiv NInf PInf = NaN"
| "fdiv NInf NInf = NaN"
| "fdiv PInf (Fin y) = (if 0 \<le> y then PInf else NInf)"
| "fdiv NInf (Fin y) = (if 0 \<le> y then NInf else PInf)"
| "fdiv (Fin x) PInf = Fin 0"
| "fdiv (Fin x) NInf = Fin 0"
| "fdiv (Fin x) (Fin y) = (if y = 0 then inf_of_sign x else round64 (x / y))"

fun fsqrt :: "float64 \<Rightarrow> float64" where
  \<comment> \<open>\<^verbatim>\<open>math.Sqrt\<close>\<close>
  "fsqrt NaN = NaN"
| "fsqrt PInf = PInf"
| "fsqrt NInf = NaN"
| "fsqrt (Fin x) = (if x < 0 then NaN else round64 (sqrt x))"

fun fgt :: "float64 \<Rightarrow> float64 \<Rightarrow> bool" where
  \<comment> \<open>\<^verbatim>\<open>a > b\<close>: false whenever an operand is NaN\<close>
  "fgt NaN _ = False"
| "fgt _ NaN = False"
| "fgt PInf PInf = False"
| "fgt PInf _ = True"
| "fgt _ PInf = False"
| "fgt NInf _ = False"
| "fgt (Fin x) NInf = True"
| "fgt (Fin x) (Fin y) = (y < x)"

subsection \<open>How a call ends\<close>

text \<open>
  A Go call returns, or ends the process (\<^verbatim>\<open>log.Fatal*\<close> logs and calls
  \<^verbatim>\<open>os.Exit(1)\<close>), or panics (a run-time error such as an index out of range).
  No function of the program returns an \<^verbatim>\<open>error\<close> value.
\<close>

datatype fatal =
    RequiredEnvNotSet string
  | FailedToMarshal
  | FailedToUnmarshal
  | FailedToCreateRequest
  | FailedToSendRequest
  | UnexpectedStatusCode nat
  | FailedToReadResponseBody
  | FailedToParseTemplate
  | FailedToExecuteTemplate
  | FailedToReadReferencesDirectory
  | FailedToReadFile string

datatype panic = IndexOutOfRange | NilPointerDereference

datatype 'a outcome = Returned 'a | Fatal fatal | Panic panic

subsection \<open>Structs\<close>

text \<open>
  The struct types of the program, field for field. Two field names occur in two
  structs each; the field of the struct declared first is written with the name of
  its struct (\<open>EmbeddingRequest.Model\<close>, \<open>EmbeddingData.Embedding\<close>). A
  \<^verbatim>\<open>map[string]string\<close> is a map \<open>string \<rightharpoonup> string\<close>.
\<close>

record EmbeddingRequest =
  Model :: string
  Input :: string

record EmbeddingData =
  Embedding :: "float64 list"

record EmbeddingResponse =
  Data :: "EmbeddingData list"

record Reference =
  File :: string
  Exerpt :: string
  Embedding :: "float64 list"

record QueryExpansionResponse =
  Queries :: "string list"

record Citation =
  Claim :: string
  References :: "Reference list"

record CitedResponse =
  Commentary :: string
  Citations :: "Citation list"

record CompletionRequest =
  Model :: string
  Messages :: "(string \<rightharpoonup> string) list"
  ResponseFormat :: "string \<rightharpoonup> string"

record CompletionChoice =
  Message :: "string \<rightharpoonup> string"

record CompletionResponse =
  Choices :: "CompletionChoice list"

subsection \<open>Templates\<close>

text \<open>
  The program parses three template texts with \<^verbatim>\<open>html/template\<close> and executes them.
  A parsed template is a list of nodes: literal text, an action printing a chain of
  fields of the current value, \<^verbatim>\<open>{{if}}\<close> and \<^verbatim>\<open>{{range}}\<close>. The package escapes what
  an action prints for the place it stands in: element content, or a URL inside an
  \<^verbatim>\<open>href\<close> attribute.
\<close>

datatype escaper = HTMLText | URLAttr

datatype node =
    Text string
  | Action escaper "string list"
  | IfNode "string list" "node list" "node list"
  | RangeNode "string list" "node list"

text \<open>
  The values a template is executed on (what the \<^verbatim>\<open>interface{}\<close> data holds): nil, a
  string, a number, a slice, a struct with its fields, a \<^verbatim>\<open>map[string]interface{}\<close>
  with its entries, and the absent value that a key missing from such a map reads
  as.
\<close>

datatype tvalue =
    VNoValue
  | VNil
  | VString string
  | VFloat float64
  | VSlice "tvalue list"
  | VFields "(string \<times> tvalue) list"
  | VMap "(string \<times> tvalue) list"

fun field :: "string \<Rightarrow> tvalue \<Rightarrow> tvalue option" where
  \<comment> \<open>a field that a struct does not have is an error; a key that a map does not
      have is not, and neither is a field of the absent value\<close>
  "field f (VFields fs) = map_of fs f"
| "field f (VMap kvs) = Some (case map_of kvs f of None \<Rightarrow> VNoValue | Some v \<Rightarrow> v)"
| "field f VNoValue = Some VNoValue"
| "field f _ = None"

fun eval_chain :: "string list \<Rightarrow> tvalue \<Rightarrow> tvalue option" where
  "eval_chain [] v = Some v"
| "eval_chain (f # fs) v = (case field f v of None \<Rightarrow> None | Some v' \<Rightarrow> eval_chain fs v')"

fun truth :: "tvalue \<Rightarrow> bool" where
  \<comment> \<open>what \<^verbatim>\<open>{{if}}\<close> takes as true: a non-nil, non-empty value; a struct always\<close>
  "truth VNoValue = False"
| "truth VNil = False"
| "truth (VString s) = (s \<noteq> [])"
| "truth (VFloat x) = (x \<noteq> Fin 0)"
| "truth (VSlice vs) = (vs \<noteq> [])"
| "truth (VFields fs) = True"
| "truth (VMap kvs) = (kvs \<noteq> [])"

text \<open>
  Executing a template. \<open>None\<close> is an execution error: a field that a struct does
  not have, a field of nil or of a value without fields, a \<^verbatim>\<open>{{range}}\<close> over nil or
  over a value that is no slice. The absent value and nil print as nothing, and a
  \<^verbatim>\<open>{{range}}\<close> over the absent value runs no iteration. Printing a number, a slice,
  a struct or a map is not modelled and also yields \<open>None\<close>; the three templates of
  the program print strings only.
\<close>

fun exec :: "(escaper \<Rightarrow> string \<Rightarrow> string) \<Rightarrow> node list \<Rightarrow> tvalue \<Rightarrow> string option"
  and exec_node :: "(escaper \<Rightarrow> string \<Rightarrow> string) \<Rightarrow> node \<Rightarrow> tvalue \<Rightarrow> string option"
  and exec_each :: "(escaper \<Rightarrow> string \<Rightarrow> string) \<Rightarrow> node list \<Rightarrow> tvalue list \<Rightarrow> string option"
where
  "exec esc [] dot = Some []"
| "exec esc (n # ns) dot =
     (case exec_node esc n dot of
        None \<Rightarrow> None
      | Some out \<Rightarrow> (case exec esc ns dot of None \<Rightarrow> None | Some outs \<Rightarrow> Some (out @ outs)))"
| "exec_node esc (Text t) dot = Some t"
| "exec_node esc (Action e chain) dot =
     (case eval_chain chain dot of
        Some (VString s) \<Rightarrow> Some (esc e s)
      | Some VNoValue \<Rightarrow> Some []
      | Some VNil \<Rightarrow> Some []
      | _ \<Rightarrow> None)"
| "exec_node esc (IfNode chain yes no) dot =
     (case eval_chain chain dot of
        None \<Rightarrow> None
      | Some v \<Rightarrow> if truth v then exec esc yes dot else exec esc no dot)"
| "exec_node esc (RangeNode chain body) dot =
     (case eval_chain chain dot of
        Some (VSlice items) \<Rightarrow> exec_each esc body items
      | Some VNoValue \<Rightarrow> Some []
      | _ \<Rightarrow> None)"
| "exec_each esc body [] = Some []"
| "exec_each esc body (item # items) =
     (case exec esc body item of
        None \<Rightarrow> None
      | Some out \<Rightarrow>
          (case exec_each esc body items of None \<Rightarrow> None | Some outs \<Rightarrow> Some (out @ outs)))"

text \<open>
  The three template constants, in parsed form: \<^verbatim>\<open>Parse\<close> accepts each of them. The
  texts between the actions are those of the source, character for character (no
  action trims white space).
\<close>

definition TMPL_INDEX :: "node list" where
  \<open>TMPL_INDEX =
    [Text (''\<newline>'' @
           ''<html>\<newline>'' @
           ''<h1>''),
     Action HTMLText [''Title''],
     Text (''</h1>\<newline>'' @
           ''<form action="/" method="post">\<newline>'' @
           ''<input type="text" name="query"/>\<newline>'' @
           ''<input type="submit" value="Query"/>\<newline>'' @
           ''</form>\<newline>'' @
           ''\<newline>'' @
           ''<h2>Response</h2>\<newline>''),
     IfNode [''Response'']
      [Text (''\<newline>'' @
             ''<p>Commentary: ''),
       Action HTMLText [''Response'', ''Commentary''],
       Text (''</p>\<newline>'' @
             ''\<newline>'' @
             ''References:\<newline>'' @
             ''<ul>\<newline>''),
       RangeNode [''Response'', ''Citations'']
        [Text (''\<newline>'' @
               ''<li>''),
         Action HTMLText [''Claim''],
         Text '' '',
         RangeNode [''References'']
          [Text ''<a href="/references/'',
           Action URLAttr [''File''],
           Text ''">'',
           Action HTMLText [''File''],
           Text ''</a>''],
         Text ''</li>\<newline>''],
       Text (''\<newline>'' @
             ''</ul>\<newline>'' @
             ''\<newline>'')]
      [Text (''\<newline>'' @
             ''<p>Submit a query to get a response.</p>\<newline>'')],
     Text (''\<newline>'' @
           ''</html>\<newline>'')]\<close>

definition TMPL_PROMPT_EXPAND_QUERY :: "node list" where
  \<open>TMPL_PROMPT_EXPAND_QUERY =
    [Text (''\<newline>'' @
           ''INSTRUCTIONS\<newline>'' @
           ''\<newline>'' @
           ''Expand the following QUERY. Provide 10 additional queries you would use to\<newline>'' @
           ''diversify your knowledge on the topic.\<newline>'' @
           ''\<newline>'' @
           ''QUERY\<newline>'' @
           ''\<newline>''),
     Action HTMLText [''Query''],
     Text (''\<newline>'' @
           ''\<newline>'' @
           ''JSON RESPONSE TEMPLATE\<newline>'' @
           ''\<newline>'' @
           ''{\<newline>'' @
           CHR 0x09 # ''"queries": ["<query 1>", "<query 2>", "<query 3>"]\<newline>'' @
           ''}\<newline>'')]\<close>

definition citations_impossible :: string where
  \<open>citations_impossible =
     ''If NO REFERENCES are provided, it is impossible to provide citations.''\<close>

definition TMPL_PROMPT_RESPONSE :: "node list" where
  \<open>TMPL_PROMPT_RESPONSE =
    [Text (''\<newline>'' @
           ''INSTRUCTIONS\<newline>'' @
           ''\<newline>'' @
           ''Respond to the following QUERY using REFERENCES below. Cite the a file in the\<newline>'' @
           ''REFERENCES that contains the fact used. Provide uncited commentary separately.\<newline>'' @
           citations_impossible @
           ''\<newline>'' @
           ''\<newline>'' @
           ''QUERY\<newline>'' @
           ''\<newline>''),
     Action HTMLText [''Query''],
     Text (''\<newline>'' @
           ''\<newline>'' @
           ''REFERENCES\<newline>'' @
           ''\<newline>''),
     RangeNode [''References'']
      [Text (''\<newline>'' @
             ''- File: ''),
       Action HTMLText [''File''],
       Text (''\<newline>'' @
             ''- Exerpt: ''),
       Action HTMLText [''Exerpt''],
       Text ''\<newline>''],
     Text (''\<newline>'' @
           ''\<newline>'' @
           ''JSON RESPONSE TEMPLATE\<newline>'' @
           ''\<newline>'' @
           ''{\<newline>'' @
           CHR 0x09 # ''"commentary": "<summary commentary without citations>",\<newline>'' @
           CHR 0x09 # ''"citations": [\<newline>'' @
           CHR 0x09 # CHR 0x09 # ''{\<newline>'' @
           CHR 0x09 # CHR 0x09 # CHR 0x09 # ''"claim": "<summary claim 1>",\<newline>'' @
           CHR 0x09 # CHR 0x09 # CHR 0x09 # ''"references": [\<newline>'' @
           CHR 0x09 # CHR 0x09 # CHR 0x09 # CHR 0x09 # ''{"exerpt": "<exerpt>", "file": "<file-name-1.txt>"},\<newline>'' @
           CHR 0x09 # CHR 0x09 # CHR 0x09 # CHR 0x09 # ''{"exerpt": "<exerpt>", "file": "<file-name-2.txt>"},\<newline>'' @
           CHR 0x09 # CHR 0x09 # CHR 0x09 # CHR 0x09 # ''{"exerpt": "<exerpt>", "file": "<file-name-3.txt>"},\<newline>'' @
           CHR 0x09 # CHR 0x09 # CHR 0x09 # '']\<newline>'' @
           CHR 0x09 # CHR 0x09 # ''},\<newline>'' @
           CHR 0x09 # '']\<newline>'' @
           ''}\<newline>'')]\<close>

text \<open>The data the program hands to the templates.\<close>

definition Reference_value :: "Reference \<Rightarrow> tvalue" where
  "Reference_value r =
     VFields [(''File'', VString (File r)), (''Exerpt'', VString (Exerpt r)),
              (''Embedding'', VSlice (map VFloat (Reference.Embedding r)))]"

definition Citation_value :: "Citation \<Rightarrow> tvalue" where
  "Citation_value c =
     VFields [(''Claim'', VString (Claim c)),
              (''References'', VSlice (map Reference_value (References c)))]"

definition CitedResponse_value :: "CitedResponse \<Rightarrow> tvalue" where
  "CitedResponse_value r =
     VFields [(''Commentary'', VString (Commentary r)),
              (''Citations'', VSlice (map Citation_value (Citations r)))]"

section \<open>The world outside the program\<close>

text \<open>
  What the program does not contain is a parameter of the model: the provider
  behind \<^verbatim>\<open>http.Client.Do\<close>, the file system, the process environment, and the
  standard library's JSON codec and template escapers. The world \<open>'w\<close> is whatever
  state the outside has; a POST may change it, so two equal requests can be
  answered differently.
\<close>

datatype http_result =
    CannotCreateRequest
  | CannotSend
  | Response nat "string option"
    \<comment> \<open>status code, and the body (\<open>None\<close>: reading it fails)\<close>

record DirEntry =
  Name :: string
  IsDir :: bool

record 'w env =
  LookupEnv :: "string \<Rightarrow> string option"
  ReadDir :: "'w \<Rightarrow> string \<Rightarrow> DirEntry list option"
  ReadFile :: "'w \<Rightarrow> string \<Rightarrow> string option"
  Post :: "'w \<Rightarrow> string \<Rightarrow> string \<Rightarrow> string \<Rightarrow> http_result \<times> 'w"
    \<comment> \<open>the world, the URL, the bearer token and the body\<close>
  MarshalCompletionRequest :: "CompletionRequest \<Rightarrow> string option"
  MarshalEmbeddingRequest :: "EmbeddingRequest \<Rightarrow> string option"
  UnmarshalCompletionResponse :: "string \<Rightarrow> CompletionResponse option"
  UnmarshalEmbeddingResponse :: "string \<Rightarrow> EmbeddingResponse option"
  UnmarshalQueryExpansionResponse :: "string \<Rightarrow> QueryExpansionResponse option"
  UnmarshalCitedResponse :: "string \<Rightarrow> CitedResponse option"
  Escape :: "escaper \<Rightarrow> string \<Rightarrow> string"

section \<open>The program\<close>

subsection \<open>Package-level variables\<close>

text \<open>
  The variables that \<^verbatim>\<open>main\<close> or a function assigns, and the threshold, are fields
  of the state; with them the state holds the world. The other package-level
  variables are never assigned and are constants here.
\<close>

record 'w state =
  openAIAPIKey :: string
  openAILanguageModel :: string
  openAIEmbeddingModel :: string
  similarityThreshold :: float64
  references :: "Reference list"
  templates :: "string \<rightharpoonup> node list"
  world :: 'w

definition openAIAPIKeyEnv :: string where
  "openAIAPIKeyEnv = ''OPENAI_API_KEY''"

definition openAILanguageModelEnv :: string where
  "openAILanguageModelEnv = ''OPENAI_LANGUAGE_MODEL''"

definition openAILanguageModelDefault :: string where
  "openAILanguageModelDefault = ''gpt-4o''"

definition openAIEmbeddingModelEnv :: string where
  "openAIEmbeddingModelEnv = ''OPENAI_EMBEDDING_MODEL''"

definition openAIEmbeddingModelDefault :: string where
  "openAIEmbeddingModelDefault = ''text-embedding-3-large''"

definition openAICompletionURL :: string where
  "openAICompletionURL = ''https://api.openai.com/v1/chat/completions''"

definition openAICompletionSystemPrompt :: string where
  "openAICompletionSystemPrompt = ''You are a helpful assistant.''"

definition openAIEmbeddingURL :: string where
  "openAIEmbeddingURL = ''https://api.openai.com/v1/embeddings''"

definition referencesPath :: string where
  "referencesPath = ''references''"

definition initial :: "'w \<Rightarrow> 'w state" where
  \<comment> \<open>the variables as the \<^verbatim>\<open>var\<close> block initialises them\<close>
  "initial w =
     \<lparr>openAIAPIKey = [], openAILanguageModel = [], openAIEmbeddingModel = [],
      similarityThreshold = Fin (1 / 2), references = [], templates = Map.empty, world = w\<rparr>"

subsection \<open>Sequencing\<close>

text \<open>
  A function of the program takes the state and gives an outcome and the state it
  leaves. \<open>then_do\<close> runs a second computation on what the first returned; when the
  first ends the process or panics, the second does not run.
\<close>

type_synonym ('a, 'w) prog = "'w state \<Rightarrow> 'a outcome \<times> 'w state"

definition finish :: "'a outcome \<Rightarrow> ('a, 'w) prog" where
  "finish r s = (r, s)"

definition then_do :: "('a, 'w) prog \<Rightarrow> ('a \<Rightarrow> ('b, 'w) prog) \<Rightarrow> ('b, 'w) prog" where
  "then_do m f s =
     (case m s of
        (Returned a, s') \<Rightarrow> f a s'
      | (Fatal e, s') \<Rightarrow> (Fatal e, s')
      | (Panic p, s') \<Rightarrow> (Panic p, s'))"

subsection \<open>Requests to the provider\<close>

definition NewCompletionRequest :: "'w state \<Rightarrow> CompletionRequest" where
  "NewCompletionRequest s =
     \<lparr>Model = openAILanguageModel s, Messages = [],
      ResponseFormat = [''type'' \<mapsto> ''json_object'']\<rparr>"

definition AddMessage :: "CompletionRequest \<Rightarrow> string \<Rightarrow> string \<Rightarrow> CompletionRequest" where
  "AddMessage r role content =
     r\<lparr>Messages := Messages r @ [[''role'' \<mapsto> role, ''content'' \<mapsto> content]]\<rparr>"

definition Content :: "CompletionResponse \<Rightarrow> string outcome" where
  \<comment> \<open>\<^verbatim>\<open>r.Choices[0].Message["content"]\<close>: a missing key reads as the empty string\<close>
  "Content r =
     (case Choices r of
        [] \<Rightarrow> Panic IndexOutOfRange
      | c # _ \<Rightarrow> Returned (case Message c ''content'' of None \<Rightarrow> [] | Some v \<Rightarrow> v))"

definition NewEmbeddingRequest :: "'w state \<Rightarrow> string \<Rightarrow> EmbeddingRequest" where
  "NewEmbeddingRequest s text =
     \<lparr>EmbeddingRequest.Model = openAIEmbeddingModel s, Input = text\<rparr>"

definition Embedding_of :: "EmbeddingResponse \<Rightarrow> float64 list outcome" where
  \<comment> \<open>the method \<^verbatim>\<open>EmbeddingResponse.Embedding\<close>: \<^verbatim>\<open>r.Data[0].Embedding\<close>\<close>
  "Embedding_of r =
     (case Data r of
        [] \<Rightarrow> Panic IndexOutOfRange
      | d # _ \<Rightarrow> Returned (EmbeddingData.Embedding d))"

definition mustGetEnv :: "'w env \<Rightarrow> string \<Rightarrow> string outcome" where
  "mustGetEnv env key =
     (case LookupEnv env key of Some v \<Rightarrow> Returned v | None \<Rightarrow> Fatal (RequiredEnvNotSet key))"

definition getEnv :: "'w env \<Rightarrow> string \<Rightarrow> string \<Rightarrow> string" where
  "getEnv env key defaultValue =
     (case LookupEnv env key of Some v \<Rightarrow> v | None \<Rightarrow> defaultValue)"

text \<open>
  \<^verbatim>\<open>toJSON\<close> and \<^verbatim>\<open>fromJSON\<close> take the value's codec as an argument (in Go it is
  chosen by the value's type). \<^verbatim>\<open>fromJSON\<close> is only called on a fresh zero value,
  so what it leaves in it is what the codec decodes.
\<close>

definition toJSON :: "('a \<Rightarrow> string option) \<Rightarrow> 'a \<Rightarrow> string outcome" where
  "toJSON marshal v =
     (case marshal v of None \<Rightarrow> Fatal FailedToMarshal | Some json \<Rightarrow> Returned json)"

definition fromJSON :: "(string \<Rightarrow> 'a option) \<Rightarrow> string \<Rightarrow> 'a outcome" where
  "fromJSON unmarshal data =
     (case unmarshal data of None \<Rightarrow> Fatal FailedToUnmarshal | Some v \<Rightarrow> Returned v)"

definition doPost :: "'w env \<Rightarrow> string \<Rightarrow> string \<Rightarrow> (string, 'w) prog" where
  "doPost env url body s =
     (case Post env (world s) url (openAIAPIKey s) body of
        (CannotCreateRequest, w) \<Rightarrow> (Fatal FailedToCreateRequest, s\<lparr>world := w\<rparr>)
      | (CannotSend, w) \<Rightarrow> (Fatal FailedToSendRequest, s\<lparr>world := w\<rparr>)
      | (Response StatusCode responseBody, w) \<Rightarrow>
          if StatusCode \<noteq> 200 then (Fatal (UnexpectedStatusCode StatusCode), s\<lparr>world := w\<rparr>)
          else (case responseBody of
                  None \<Rightarrow> (Fatal FailedToReadResponseBody, s\<lparr>world := w\<rparr>)
                | Some responseBodyBytes \<Rightarrow> (Returned responseBodyBytes, s\<lparr>world := w\<rparr>)))"

subsection \<open>Templates\<close>

definition LoadTemplate :: "string \<Rightarrow> node list option \<Rightarrow> (node list, 'w) prog" where
  \<comment> \<open>\<open>parsed\<close> is what \<^verbatim>\<open>template.New(name).Parse(text)\<close> gives: the parsed
      template, or \<open>None\<close> when the text does not parse\<close>
  "LoadTemplate name parsed s =
     (case templates s name of
        Some tmpl \<Rightarrow> (Returned tmpl, s)
      | None \<Rightarrow>
          (case parsed of
             None \<Rightarrow> (Fatal FailedToParseTemplate, s)
           | Some tmpl \<Rightarrow> (Returned tmpl, s\<lparr>templates := (templates s)(name \<mapsto> tmpl)\<rparr>)))"

definition RenderTemplate ::
  "'w env \<Rightarrow> string \<Rightarrow> (string \<times> tvalue) list \<Rightarrow> (string, 'w) prog" where
  \<comment> \<open>\<open>data\<close> holds the entries of the map; \<^verbatim>\<open>templates[name]\<close> of an absent name is
      a nil pointer, and executing it panics\<close>
  "RenderTemplate env name data s =
     (case templates s name of
        None \<Rightarrow> (Panic NilPointerDereference, s)
      | Some tmpl \<Rightarrow>
          (case exec (Escape env) tmpl (VMap data) of
             None \<Rightarrow> (Fatal FailedToExecuteTemplate, s)
           | Some out \<Rightarrow> (Returned out, s)))"

subsection \<open>Similarity\<close>

text \<open>
  The loop of \<^verbatim>\<open>CalculateSimilarity\<close> runs \<open>i\<close> over the indices of \<open>a\<close> and reads
  \<open>a[i]\<close> and \<open>b[i]\<close>; here the two slices are consumed in step. Reading \<open>b[i]\<close>
  beyond the end of \<open>b\<close> is Go's index-out-of-range panic. The accumulator holds
  \<open>dotProduct\<close>, \<open>aMagnitude\<close> and \<open>bMagnitude\<close>.
\<close>

fun similarity_loop ::
  "float64 list \<Rightarrow> float64 list \<Rightarrow> float64 \<times> float64 \<times> float64
     \<Rightarrow> (float64 \<times> float64 \<times> float64) outcome" where
  "similarity_loop [] b acc = Returned acc"
| "similarity_loop (x # a) [] acc = Panic IndexOutOfRange"
| "similarity_loop (x # a) (y # b) (dotProduct, aMagnitude, bMagnitude) =
     similarity_loop a b
       (fadd dotProduct (fmul x y), fadd aMagnitude (fmul x x), fadd bMagnitude (fmul y y))"

definition CalculateSimilarity :: "float64 list \<Rightarrow> float64 list \<Rightarrow> float64 outcome" where
  "CalculateSimilarity a b =
     (case similarity_loop a b (Fin 0, Fin 0, Fin 0) of
        Returned (dotProduct, aMagnitude, bMagnitude) \<Rightarrow>
          Returned (fdiv dotProduct (fmul (fsqrt aMagnitude) (fsqrt bMagnitude)))
      | Fatal e \<Rightarrow> Fatal e
      | Panic p \<Rightarrow> Panic p)"

text \<open>
  The cosine similarity as the specification words it, \<open>dot(a,b) / (|a| * |b|)\<close>,
  in float64 arithmetic, summing from the left.
\<close>

definition dot :: "float64 list \<Rightarrow> float64 list \<Rightarrow> float64" where
  "dot a b = foldl fadd (Fin 0) (map2 fmul a b)"

definition magnitude :: "float64 list \<Rightarrow> float64" where
  "magnitude a = fsqrt (dot a a)"

definition cosine_similarity :: "float64 list \<Rightarrow> float64 list \<Rightarrow> float64" where
  "cosine_similarity a b = fdiv (dot a b) (fmul (magnitude a) (magnitude b))"

subsection \<open>References\<close>

text \<open>
  The inner loop of \<^verbatim>\<open>FindReference\<close> runs over \<open>result\<close>; its \<^verbatim>\<open>continue\<close> goes on
  with the next \<open>r\<close> of that loop, and its body does nothing else. The references
  that the lookup appends are copies whose embeddings share their arrays with the
  store; the program never assigns to an element of an embedding, so the copies
  are values here.
\<close>

fun FindReference_inner :: "Reference list \<Rightarrow> Reference \<Rightarrow> unit" where
  "FindReference_inner [] reference = ()"
| "FindReference_inner (r # result) reference =
     (if File r = File reference then FindReference_inner result reference
      else FindReference_inner result reference)"

fun FindReference_loop ::
  "float64 \<Rightarrow> float64 list \<Rightarrow> Reference list \<Rightarrow> Reference list \<Rightarrow> Reference list outcome" where
  "FindReference_loop threshold embedding [] result = Returned result"
| "FindReference_loop threshold embedding (reference # rest) result =
     (let _ = FindReference_inner result reference in
        (case CalculateSimilarity embedding (Embedding reference) of
           Returned similarity \<Rightarrow>
             if fgt similarity threshold
             then FindReference_loop threshold embedding rest (result @ [reference])
             else FindReference_loop threshold embedding rest result
         | Fatal e \<Rightarrow> Fatal e
         | Panic p \<Rightarrow> Panic p))"

definition GenerateCompletion :: "'w env \<Rightarrow> string \<Rightarrow> (string, 'w) prog" where
  "GenerateCompletion env text s =
     (let completionRequest =
            AddMessage (AddMessage (NewCompletionRequest s) ''system'' openAICompletionSystemPrompt)
              ''user'' text
      in then_do (finish (toJSON (MarshalCompletionRequest env) completionRequest)) (\<lambda>json.
         then_do (doPost env openAICompletionURL json) (\<lambda>body.
         then_do (finish (fromJSON (UnmarshalCompletionResponse env) body)) (\<lambda>completionResponse.
         finish (Content completionResponse)))) s)"

definition GenerateEmbedding :: "'w env \<Rightarrow> string \<Rightarrow> (float64 list, 'w) prog" where
  "GenerateEmbedding env text s =
     then_do (finish (toJSON (MarshalEmbeddingRequest env) (NewEmbeddingRequest s text))) (\<lambda>json.
     then_do (doPost env openAIEmbeddingURL json) (\<lambda>body.
     then_do (finish (fromJSON (UnmarshalEmbeddingResponse env) body)) (\<lambda>embeddingResponse.
     finish (Embedding_of embeddingResponse)))) s"

fun LoadReferences_loop :: "'w env \<Rightarrow> string \<Rightarrow> DirEntry list \<Rightarrow> (unit, 'w) prog" where
  "LoadReferences_loop env path [] s = (Returned (), s)"
| "LoadReferences_loop env path (file # files) s =
     (if IsDir file then LoadReferences_loop env path files s
      else (case ReadFile env (world s) (path @ ''/'' @ Name file) of
              None \<Rightarrow> (Fatal (FailedToReadFile (Name file)), s)
            | Some content \<Rightarrow>
                (case GenerateEmbedding env content s of
                   (Returned embedding, s') \<Rightarrow>
                     LoadReferences_loop env path files
                       (s'\<lparr>references := references s' @
                           [\<lparr>File = Name file, Exerpt = content, Embedding = embedding\<rparr>]\<rparr>)
                 | (Fatal e, s') \<Rightarrow> (Fatal e, s')
                 | (Panic p, s') \<Rightarrow> (Panic p, s'))))"

definition LoadReferences :: "'w env \<Rightarrow> string \<Rightarrow> (unit, 'w) prog" where
  "LoadReferences env path s =
     (case ReadDir env (world s) path of
        None \<Rightarrow> (Fatal FailedToReadReferencesDirectory, s)
      | Some files \<Rightarrow> LoadReferences_loop env path files s)"

definition FindReference :: "'w env \<Rightarrow> string \<Rightarrow> (Reference list, 'w) prog" where
  "FindReference env query =
     then_do (GenerateEmbedding env query) (\<lambda>embedding s.
       (FindReference_loop (similarityThreshold s) embedding (references s) [], s))"

subsection \<open>Query expansion, the cited answer and the handler\<close>

definition ExpandQuery :: "'w env \<Rightarrow> string \<Rightarrow> (QueryExpansionResponse, 'w) prog" where
  "ExpandQuery env query =
     then_do (RenderTemplate env ''expand'' [(''Query'', VString query)]) (\<lambda>prompt.
     then_do (GenerateCompletion env prompt) (\<lambda>response.
     finish (fromJSON (UnmarshalQueryExpansionResponse env) response)))"

definition GenerateCompletionWithCitations ::
  "'w env \<Rightarrow> string \<Rightarrow> Reference list \<Rightarrow> (CitedResponse, 'w) prog" where
  "GenerateCompletionWithCitations env query refs =
     then_do (RenderTemplate env ''response''
                [(''Query'', VString query), (''References'', VSlice (map Reference_value refs))])
       (\<lambda>prompt.
     then_do (GenerateCompletion env prompt) (\<lambda>response.
     finish (fromJSON (UnmarshalCitedResponse env) response)))"

record Request =
  Method :: string
  FormValue :: "string \<Rightarrow> string"

datatype written =
    Write string
  | Error string nat
    \<comment> \<open>\<^verbatim>\<open>w.Write\<close> of a page, or \<^verbatim>\<open>http.Error\<close> with a message and a status code\<close>

text \<open>
  The loop of \<^verbatim>\<open>Handler\<close> over the expanded queries; \<open>refs\<close> is the handler's local
  variable \<open>references\<close>, which hides the package-level one.
\<close>

fun Handler_loop :: "'w env \<Rightarrow> string list \<Rightarrow> Reference list \<Rightarrow> (Reference list, 'w) prog" where
  "Handler_loop env [] refs s = (Returned refs, s)"
| "Handler_loop env (query # queries) refs s =
     (case FindReference env query s of
        (Returned found, s') \<Rightarrow> Handler_loop env queries (refs @ found) s'
      | (Fatal e, s') \<Rightarrow> (Fatal e, s')
      | (Panic p, s') \<Rightarrow> (Panic p, s'))"

definition Handler :: "'w env \<Rightarrow> Request \<Rightarrow> (written, 'w) prog" where
  "Handler env r =
     (let title = ''Study'' in
      if Method r = ''POST'' then
        (let query = FormValue r ''query'' in
         then_do (ExpandQuery env query) (\<lambda>expanded.
         then_do (Handler_loop env (Queries expanded) []) (\<lambda>refs.
         then_do (GenerateCompletionWithCitations env query refs) (\<lambda>cited.
         then_do (RenderTemplate env ''index''
                    [(''Title'', VString title), (''Response'', CitedResponse_value cited)])
           (\<lambda>page. finish (Returned (Write page)))))))
      else if Method r = ''GET'' then
        then_do (RenderTemplate env ''index'' [(''Title'', VString title), (''Response'', VNil)])
          (\<lambda>page. finish (Returned (Write page)))
      else finish (Returned (Error ''Method not allowed'' 405)))"

subsection \<open>The server and the entry point\<close>

text \<open>
  \<^verbatim>\<open>net/http\<close> calls the handler for each request to a path that is not under
  \<^verbatim>\<open>/references/\<close> (those go to the library's file server). When the handler
  panics, the server recovers, logs and closes the connection, and goes on serving;
  when the handler ends the process, nothing is served any more. The requests are
  taken one after the other.
\<close>

datatype served = Replied written | ConnectionAborted panic

fun serve ::
  "'w env \<Rightarrow> Request list \<Rightarrow> 'w state \<Rightarrow> served list \<times> fatal option \<times> 'w state" where
  "serve env [] s = ([], None, s)"
| "serve env (r # rs) s =
     (case Handler env r s of
        (Returned reply, s') \<Rightarrow>
          (case serve env rs s' of (out, exit, s'') \<Rightarrow> (Replied reply # out, exit, s''))
      | (Panic p, s') \<Rightarrow>
          (case serve env rs s' of (out, exit, s'') \<Rightarrow> (ConnectionAborted p # out, exit, s''))
      | (Fatal e, s') \<Rightarrow> ([], Some e, s'))"

definition startup :: "'w env \<Rightarrow> (unit, 'w) prog" where
  \<comment> \<open>\<^verbatim>\<open>main\<close> up to the call of \<^verbatim>\<open>http.ListenAndServe\<close>\<close>
  "startup env =
     then_do (finish (mustGetEnv env openAIAPIKeyEnv)) (\<lambda>key s0.
       (let s1 = s0\<lparr>openAIAPIKey := key\<rparr>;
            s2 = s1\<lparr>openAILanguageModel :=
                      getEnv env openAILanguageModelEnv openAILanguageModelDefault\<rparr>;
            s3 = s2\<lparr>openAIEmbeddingModel :=
                      getEnv env openAIEmbeddingModelEnv openAIEmbeddingModelDefault\<rparr>
        in then_do (LoadTemplate ''index'' (Some TMPL_INDEX)) (\<lambda>_.
           then_do (LoadTemplate ''expand'' (Some TMPL_PROMPT_EXPAND_QUERY)) (\<lambda>_.
           then_do (LoadTemplate ''response'' (Some TMPL_PROMPT_RESPONSE)) (\<lambda>_.
           LoadReferences env referencesPath))) s3))"

datatype exit = Exit fatal | Crash panic

definition main ::
  "'w env \<Rightarrow> Request list \<Rightarrow> 'w \<Rightarrow> served list \<times> exit option \<times> 'w state" where
  \<comment> \<open>a panic during startup is in the main goroutine and ends the process\<close>
  "main env requests w =
     (case startup env (initial w) of
        (Returned _, s) \<Rightarrow>
          (case serve env requests s of (out, e, s') \<Rightarrow> (out, map_option Exit e, s'))
      | (Fatal e, s) \<Rightarrow> ([], Some (Exit e), s)
      | (Panic p, s) \<Rightarrow> ([], Some (Crash p), s))"

section \<open>Notions used in the statements\<close>

definition zero_vector :: "float64 list \<Rightarrow> bool" where
  \<comment> \<open>every component is zero\<close>
  "zero_vector a = list_all (\<lambda>x. x = Fin 0) a"

definition zero_or_nan :: "float64 \<Rightarrow> bool" where
  "zero_or_nan v = (v = Fin 0 \<or> v = NaN)"

text \<open>
  \<open>preserves I Q m\<close>: started in a state where \<open>I\<close> holds, \<open>m\<close> leaves a state where
  \<open>I\<close> holds, unless it ends the process with a fatal error that \<open>Q\<close> describes.
\<close>

definition preserves :: "('w state \<Rightarrow> bool) \<Rightarrow> (fatal \<Rightarrow> bool) \<Rightarrow> ('a, 'w) prog \<Rightarrow> bool" where
  "preserves I Q m =
     (\<forall>s out s'. I s \<longrightarrow> m s = (out, s') \<longrightarrow> I s' \<or> (\<exists>e. out = Fatal e \<and> Q e))"

text \<open>
  \<open>records_status env codes\<close>: from the world one can read the list \<open>codes\<close> of the
  status codes of the responses it has given so far. This asks nothing of what
  the provider answers; the scripted world below keeps such a list.
\<close>

definition records_status :: "'w env \<Rightarrow> ('w \<Rightarrow> nat list) \<Rightarrow> bool" where
  "records_status env codes =
     (\<forall>w url key body r w'.
        Post env w url key body = (r, w') \<longrightarrow>
        codes w' = codes w @ (case r of Response code _ \<Rightarrow> [code] | _ \<Rightarrow> []))"

definition all_ok :: "nat list \<Rightarrow> bool" where
  "all_ok cs = list_all (\<lambda>c. c = 200) cs"

definition status_exit :: "fatal \<Rightarrow> bool" where
  "status_exit e = (case e of UnexpectedStatusCode c \<Rightarrow> c \<noteq> 200 | _ \<Rightarrow> False)"

section \<open>A scripted outside world\<close>

text \<open>
  A concrete outside world to run the program on: the provider answers each POST
  with the next entry of a script and logs the URL, the body and its answer. The
  codecs know a handful of bodies. A request's JSON is abbreviated to the text it
  carries (the input to embed, the content of the last message).
\<close>

type_synonym scripted = "http_result list \<times> (string \<times> string \<times> http_result) list"

definition scripted_Post ::
  "scripted \<Rightarrow> string \<Rightarrow> string \<Rightarrow> string \<Rightarrow> http_result \<times> scripted" where
  "scripted_Post w url key body =
     (case fst w of
        [] \<Rightarrow> (CannotSend, ([], snd w @ [(url, body, CannotSend)]))
      | r # script \<Rightarrow> (r, (script, snd w @ [(url, body, r)])))"

definition status_codes :: "scripted \<Rightarrow> nat list" where
  "status_codes w =
     concat (map (\<lambda>(url, body, r). case r of Response code _ \<Rightarrow> [code] | _ \<Rightarrow> []) (snd w))"

definition last_content :: "CompletionRequest \<Rightarrow> string" where
  "last_content r =
     (case rev (Messages r) of
        [] \<Rightarrow> []
      | m # _ \<Rightarrow> (case m ''content'' of None \<Rightarrow> [] | Some c \<Rightarrow> c))"

definition sky :: Reference where
  "sky = \<lparr>File = ''sky.txt'', Exerpt = ''the sky is blue due to Rayleigh scattering'',
          Embedding = [Fin 1, Fin 0]\<rparr>"

definition sea :: Reference where
  "sea = \<lparr>File = ''sea.txt'', Exerpt = ''the sea is salty'', Embedding = [Fin 0, Fin 1]\<rparr>"

definition sun :: Reference where
  "sun = \<lparr>File = ''sun.txt'', Exerpt = ''the sun is a star'', Embedding = [Fin 1, Fin 0]\<rparr>"

definition axis :: Reference where
  "axis = \<lparr>File = ''axis.txt'', Exerpt = ''one axis'', Embedding = [Fin 1]\<rparr>"

definition ok :: "string \<Rightarrow> http_result" where
  "ok body = Response 200 (Some body)"

definition scripted_embedding :: "string \<Rightarrow> EmbeddingResponse option" where
  "scripted_embedding body =
     (if body = ''[1,0]'' then Some \<lparr>Data = [\<lparr>EmbeddingData.Embedding = [Fin 1, Fin 0]\<rparr>]\<rparr>
      else if body = ''[0,1]'' then Some \<lparr>Data = [\<lparr>EmbeddingData.Embedding = [Fin 0, Fin 1]\<rparr>]\<rparr>
      else if body = ''[0,0]'' then Some \<lparr>Data = [\<lparr>EmbeddingData.Embedding = [Fin 0, Fin 0]\<rparr>]\<rparr>
      else if body = ''no data'' then Some \<lparr>Data = []\<rparr>
      else None)"

definition scripted_completion :: "string \<Rightarrow> CompletionResponse option" where
  "scripted_completion body =
     (if body = ''no choices'' then Some \<lparr>Choices = []\<rparr>
      else if take 1 body = ''{'' then Some \<lparr>Choices = [\<lparr>Message = [''content'' \<mapsto> body]\<rparr>]\<rparr>
      else None)"

definition scripted_expansion :: "string \<Rightarrow> QueryExpansionResponse option" where
  "scripted_expansion content =
     (if content = ''{v1}'' then Some \<lparr>Queries = [''v1'']\<rparr>
      else if content = ''{v1,v2}'' then Some \<lparr>Queries = [''v1'', ''v2'']\<rparr>
      else if content = ''{}'' then Some \<lparr>Queries = []\<rparr>
      else None)"

definition cites :: "string \<Rightarrow> CitedResponse" where
  "cites file =
     \<lparr>Commentary = ''Scattering.'',
      Citations = [\<lparr>Claim = ''The sky is blue.'',
                    References = [\<lparr>File = file, Exerpt = ''blue'', Embedding = []\<rparr>]\<rparr>]\<rparr>"

definition scripted_cited :: "string \<Rightarrow> CitedResponse option" where
  "scripted_cited content =
     (if content = ''{sky}'' then Some (cites ''sky.txt'')
      else if content = ''{ghost}'' then Some (cites ''ghost.txt'')
      else if content = ''{}'' then Some \<lparr>Commentary = [], Citations = []\<rparr>
      else None)"

definition scripted_env :: "scripted env" where
  "scripted_env =
     \<lparr>LookupEnv = [openAIAPIKeyEnv \<mapsto> ''secret''],
      ReadDir = (\<lambda>w path. if path = referencesPath
                  then Some [\<lparr>Name = ''drafts'', IsDir = True\<rparr>, \<lparr>Name = ''sky.txt'', IsDir = False\<rparr>]
                  else None),
      ReadFile = (\<lambda>w path. if path = ''references/sky.txt'' then Some (Exerpt sky) else None),
      Post = scripted_Post,
      MarshalCompletionRequest = (\<lambda>r. Some (last_content r)),
      MarshalEmbeddingRequest = (\<lambda>r. Some (Input r)),
      UnmarshalCompletionResponse = scripted_completion,
      UnmarshalEmbeddingResponse = scripted_embedding,
      UnmarshalQueryExpansionResponse = scripted_expansion,
      UnmarshalCitedResponse = scripted_cited,
      Escape = (\<lambda>e text. text)\<rparr>"

definition loaded :: "http_result list \<Rightarrow> scripted state" where
  \<comment> \<open>the state after startup with the one fact \<open>sky\<close>, and a script yet to play\<close>
  "loaded script =
     \<lparr>openAIAPIKey = ''secret'', openAILanguageModel = openAILanguageModelDefault,
      openAIEmbeddingModel = openAIEmbeddingModelDefault, similarityThreshold = Fin (1 / 2),
      references = [sky],
      templates = [''index'' \<mapsto> TMPL_INDEX, ''expand'' \<mapsto> TMPL_PROMPT_EXPAND_QUERY,
                   ''response'' \<mapsto> TMPL_PROMPT_RESPONSE],
      world = (script, [])\<rparr>"

definition post_query :: "string \<Rightarrow> Request" where
  "post_query q = \<lparr>Method = ''POST'', FormValue = (\<lambda>k. if k = ''query'' then q else [])\<rparr>"

definition get_index :: Request where
  "get_index = \<lparr>Method = ''GET'', FormValue = (\<lambda>k. [])\<rparr>"

text \<open>
  Three scripts for one POST of a query. In each the expansion gives the queries
  \<open>v1\<close> and \<open>v2\<close>. In \<open>script_A\<close> and \<open>script_C\<close> both are embedded as \<open>[1,0]\<close>, the
  embedding of \<open>sky\<close>, and the answer cites \<open>ghost.txt\<close> and \<open>sky.txt\<close>. In
  \<open>script_B\<close> the first embedding call is answered with status 503.
\<close>

definition script_A :: "http_result list" where
  "script_A = [ok ''{v1,v2}'', ok ''[1,0]'', ok ''[1,0]'', ok ''{ghost}'']"

definition script_B :: "http_result list" where
  "script_B = [ok ''{v1,v2}'', Response 503 (Some ''overloaded''), ok ''[1,0]'', ok ''{sky}'']"

definition script_C :: "http_result list" where
  "script_C = [ok ''{v1,v2}'', ok ''[1,0]'', ok ''[1,0]'', ok ''{sky}'']"

definition answer_page :: "string \<Rightarrow> string" where
  \<comment> \<open>the page of the answer \<open>cites file\<close>, as a browser receives it\<close>
  \<open>answer_page file =
     ''\<newline>'' @
     ''<html>\<newline>'' @
     ''<h1>Study</h1>\<newline>'' @
     ''<form action="/" method="post">\<newline>'' @
     ''<input type="text" name="query"/>\<newline>'' @
     ''<input type="submit" value="Query"/>\<newline>'' @
     ''</form>\<newline>'' @
     ''\<newline>'' @
     ''<h2>Response</h2>\<newline>'' @
     ''\<newline>'' @
     ''<p>Commentary: Scattering.</p>\<newline>'' @
     ''\<newline>'' @
     ''References:\<newline>'' @
     ''<ul>\<newline>'' @
     ''\<newline>'' @
     ''<li>The sky is blue. '' @
     ''<a href="/references/'' @ file @ ''">'' @ file @ ''</a>'' @
     ''</li>\<newline>'' @
     ''\<newline>'' @
     ''</ul>\<newline>'' @
     ''\<newline>'' @
     ''\<newline>'' @
     ''</html>\<newline>''\<close>

definition embedded_texts :: "scripted \<Rightarrow> string list" where
  \<comment> \<open>the texts sent to the embeddings endpoint so far\<close>
  "embedded_texts w =
     map (\<lambda>(url, body, r). body) (filter (\<lambda>(url, body, r). url = openAIEmbeddingURL) (snd w))"

definition why_prompt :: string where
  \<comment> \<open>the prompt for the query \<open>why?\<close> and no candidates\<close>
  "why_prompt =
     (case fst (RenderTemplate scripted_env ''response''
                  [(''Query'', VString ''why?''), (''References'', VSlice [])]
                  (loaded [])) of
        Returned prompt \<Rightarrow> prompt
      | _ \<Rightarrow> [])"

section \<open>Lemmas\<close>

subsection \<open>Arithmetic\<close>

lemma round64_0: "round64 0 = Fin 0"
  by (simp add: round64_def)

lemma round64_1: "round64 1 = Fin 1"
  by (simp add: round64_def round_half_even_def power_int_minus)

text \<open>Powers of two: exact within the normal range, zero far below the least subnormal.\<close>

lemma log2_powi: "log 2 (2 powi n) = real_of_int n"
  by (simp add: powr_real_of_int' [symmetric])

lemma round_half_even_of_int: "round_half_even (of_int k) = k"
  by (simp add: round_half_even_def)

lemma round64_powi:
  assumes "- 1022 \<le> n" and "n < 1024"
  shows "round64 (2 powi n) = Fin (2 powi n)"
proof -
  have a: "\<bar>(2::real) powi n\<bar> = 2 powi n"
    by (simp add: power_int_abs)
  have e: "max (\<lfloor>log 2 ((2::real) powi n)\<rfloor> - 52) (- 1074) = n - 52"
    using assms by (simp add: log2_powi)
  have q: "(2::real) powi n / 2 powi (n - 52) = of_int (2 ^ 52)"
    by (simp add: power_int_diff)
  have y: "of_int (2 ^ 52) * (2::real) powi (n - 52) = 2 powi n"
    by (simp add: power_int_diff)
  have "(2::real) powi n < 2 powi 1024"
    using assms by (intro power_int_strict_increasing) simp_all
  then have b: "\<not> (2::real) ^ 1024 \<le> 2 powi n"
    by simp
  have "(0::real) < 2 powi n"
    by simp
  then have c: "\<not> (2::real) powi n \<le> - (2 ^ 1024)"
    by (smt (verit) zero_less_power)
  show ?thesis
    unfolding round64_def Let_def a e q round_half_even_of_int y
    using b c by simp
qed

lemma round64_underflow:
  assumes "n < - 1075"
  shows "round64 (2 powi n) = Fin 0"
proof -
  have a: "\<bar>(2::real) powi n\<bar> = 2 powi n"
    by (simp add: power_int_abs)
  have e: "max (\<lfloor>log 2 ((2::real) powi n)\<rfloor> - 52) (- 1074) = - 1074"
    using assms by (simp add: log2_powi)
  have "(2::real) powi (n - (- 1074)) = 2 powi n / 2 powi (- 1074)"
    by (rule power_int_diff) simp
  then have q: "(2::real) powi n / 2 powi (- 1074) = 2 powi (n + 1074)"
    by (simp only: diff_minus_eq_add)
  have "(2::real) powi (n + 1074) < 2 powi (- 1)"
    using assms by (intro power_int_strict_increasing) simp_all
  then have lt: "(2::real) powi (n + 1074) < 1 / 2"
    by simp
  moreover have "(0::real) < 2 powi (n + 1074)"
    by simp
  ultimately have f: "\<lfloor>(2::real) powi (n + 1074)\<rfloor> = 0"
    by (simp add: floor_eq_iff)
  have r: "round_half_even ((2::real) powi (n + 1074)) = 0"
    using lt by (simp add: round_half_even_def f)
  show ?thesis
    unfolding round64_def Let_def a e q r
    by simp
qed

lemma zn_fadd: "zero_or_nan u \<Longrightarrow> zero_or_nan v \<Longrightarrow> zero_or_nan (fadd u v)"
  by (auto simp: zero_or_nan_def round64_0)

lemma zn_fmul_l: "zero_or_nan u \<Longrightarrow> zero_or_nan (fmul u v)"
  by (cases v) (auto simp: zero_or_nan_def round64_0 inf_of_sign_def)

lemma zn_fmul_r: "zero_or_nan v \<Longrightarrow> zero_or_nan (fmul u v)"
  by (cases u) (auto simp: zero_or_nan_def round64_0 inf_of_sign_def)

lemma zn_fsqrt: "zero_or_nan u \<Longrightarrow> zero_or_nan (fsqrt u)"
  by (auto simp: zero_or_nan_def round64_0)

lemma zn_fdiv: "zero_or_nan u \<Longrightarrow> zero_or_nan v \<Longrightarrow> fdiv u v = NaN"
  by (auto simp: zero_or_nan_def inf_of_sign_def)

lemma zn_foldl:
  "zero_or_nan d \<Longrightarrow> list_all zero_or_nan vs \<Longrightarrow> zero_or_nan (foldl fadd d vs)"
  by (induction vs arbitrary: d) (auto simp: zn_fadd)

lemma zn_dot_l: "zero_vector a \<Longrightarrow> zero_or_nan (dot a b)"
  unfolding dot_def zero_vector_def
  by (rule zn_foldl)
    (auto simp: zero_or_nan_def list_all_iff
      intro!: zn_fmul_l [unfolded zero_or_nan_def] dest!: set_zip_leftD)

lemma zn_dot_r: "zero_vector b \<Longrightarrow> zero_or_nan (dot a b)"
  unfolding dot_def zero_vector_def
  by (rule zn_foldl)
    (auto simp: zero_or_nan_def list_all_iff
      intro!: zn_fmul_r [unfolded zero_or_nan_def] dest!: set_zip_rightD)

lemma cosine_zero_l: "zero_vector a \<Longrightarrow> cosine_similarity a b = NaN"
  unfolding cosine_similarity_def magnitude_def
  by (intro zn_fdiv zn_fmul_l zn_fsqrt zn_dot_l)

lemma cosine_zero_r: "zero_vector b \<Longrightarrow> cosine_similarity a b = NaN"
  unfolding cosine_similarity_def magnitude_def
  by (intro zn_fdiv zn_fmul_r zn_fsqrt zn_dot_r)

subsection \<open>The similarity loop\<close>

lemma similarity_loop_short:
  "length b < length a \<Longrightarrow> similarity_loop a b acc = Panic IndexOutOfRange"
  by (induction a b acc rule: similarity_loop.induct) auto

lemma similarity_loop_returns:
  "length a \<le> length b \<Longrightarrow>
   similarity_loop a b (d, am, bm) =
     Returned (foldl fadd d (map2 fmul a b), foldl fadd am (map2 fmul a a),
               foldl fadd bm (map2 fmul (take (length a) b) (take (length a) b)))"
proof (induction a arbitrary: b d am bm)
  case Nil
  then show ?case by simp
next
  case (Cons x a)
  then obtain y b' where b: "b = y # b'" by (cases b) auto
  with Cons.prems have "length a \<le> length b'" by simp
  from Cons.IH [OF this] show ?case by (simp add: b)
qed

lemma zip_take_right: "zip a (take (length a) b) = zip a b"
proof (induction a arbitrary: b)
  case Nil
  show ?case by simp
next
  case (Cons x a)
  then show ?case by (cases b) simp_all
qed

lemma CalculateSimilarity_short:
  "length b < length a \<Longrightarrow> CalculateSimilarity a b = Panic IndexOutOfRange"
  by (simp add: CalculateSimilarity_def similarity_loop_short)

lemma CalculateSimilarity_prefix:
  "length a \<le> length b \<Longrightarrow>
   CalculateSimilarity a b = Returned (cosine_similarity a (take (length a) b))"
  by (simp add: CalculateSimilarity_def similarity_loop_returns cosine_similarity_def
      magnitude_def dot_def zip_take_right)

lemma CalculateSimilarity_cosine:
  "length a = length b \<Longrightarrow> CalculateSimilarity a b = Returned (cosine_similarity a b)"
  using CalculateSimilarity_prefix [of a b] by simp

subsection \<open>Sequencing\<close>

lemma then_do_Returned: "m s = (Returned a, s') \<Longrightarrow> then_do m f s = f a s'"
  by (simp add: then_do_def)

lemma then_do_Fatal: "m s = (Fatal e, s') \<Longrightarrow> then_do m f s = (Fatal e, s')"
  by (simp add: then_do_def)

lemma then_do_Panic: "m s = (Panic p, s') \<Longrightarrow> then_do m f s = (Panic p, s')"
  by (simp add: then_do_def)

lemma preservesD:
  "preserves I Q m \<Longrightarrow> I s \<Longrightarrow> m s = (out, s') \<Longrightarrow> I s' \<or> (\<exists>e. out = Fatal e \<and> Q e)"
  unfolding preserves_def by blast

lemma preserves_finish: "preserves I Q (finish r)"
  by (simp add: preserves_def finish_def)

lemma preserves_pure: "preserves I Q (\<lambda>s. (g s, s))"
  by (simp add: preserves_def)

lemma preserves_then_do:
  assumes m: "preserves I Q m" and f: "\<And>a. preserves I Q (f a)"
  shows "preserves I Q (then_do m f)"
  unfolding preserves_def
proof (intro allI impI)
  fix s out s'
  assume I: "I s" and run: "then_do m f s = (out, s')"
  obtain r s1 where ms: "m s = (r, s1)" by (cases "m s")
  from preservesD [OF m I ms] show "I s' \<or> (\<exists>e. out = Fatal e \<and> Q e)"
  proof (cases r)
    case (Returned a)
    with ms run have fa: "f a s1 = (out, s')" by (simp add: then_do_def)
    from Returned \<open>I s1 \<or> (\<exists>e. r = Fatal e \<and> Q e)\<close> have "I s1" by simp
    from preservesD [OF f this fa] show ?thesis .
  next
    case (Fatal e)
    with ms run have "out = Fatal e" "s' = s1" by (simp_all add: then_do_def)
    with Fatal \<open>I s1 \<or> (\<exists>e. r = Fatal e \<and> Q e)\<close> show ?thesis by auto
  next
    case (Panic p)
    with ms run have "out = Panic p" "s' = s1" by (simp_all add: then_do_def)
    with Panic \<open>I s1 \<or> (\<exists>e. r = Fatal e \<and> Q e)\<close> show ?thesis by auto
  qed
qed

lemma preserves_at:
  assumes "\<And>s0. preserves I Q (m s0)"
  shows "preserves I Q (\<lambda>s. m s s)"
  using assms unfolding preserves_def by blast

lemma preserves_RenderTemplate: "preserves I Q (RenderTemplate env name data)"
  by (auto simp: preserves_def RenderTemplate_def split: option.splits)

lemma preserves_GenerateCompletion:
  assumes post: "\<And>url body. preserves I Q (doPost env url body)"
  shows "preserves I Q (GenerateCompletion env text)"
proof -
  have "GenerateCompletion env text = (\<lambda>s. (\<lambda>s0.
      then_do (finish (toJSON (MarshalCompletionRequest env)
            (AddMessage (AddMessage (NewCompletionRequest s0) ''system'' openAICompletionSystemPrompt)
              ''user'' text))) (\<lambda>json.
         then_do (doPost env openAICompletionURL json) (\<lambda>body.
         then_do (finish (fromJSON (UnmarshalCompletionResponse env) body)) (\<lambda>completionResponse.
         finish (Content completionResponse))))) s s)"
    by (rule ext) (simp add: GenerateCompletion_def Let_def)
  then show ?thesis
    by (simp only:) (rule preserves_at, intro preserves_then_do preserves_finish post)
qed

lemma preserves_GenerateEmbedding:
  assumes post: "\<And>url body. preserves I Q (doPost env url body)"
  shows "preserves I Q (GenerateEmbedding env text)"
proof -
  have "GenerateEmbedding env text = (\<lambda>s. (\<lambda>s0.
     then_do (finish (toJSON (MarshalEmbeddingRequest env) (NewEmbeddingRequest s0 text))) (\<lambda>json.
     then_do (doPost env openAIEmbeddingURL json) (\<lambda>body.
     then_do (finish (fromJSON (UnmarshalEmbeddingResponse env) body)) (\<lambda>embeddingResponse.
     finish (Embedding_of embeddingResponse))))) s s)"
    by (rule ext) (simp add: GenerateEmbedding_def)
  then show ?thesis
    by (simp only:) (rule preserves_at, intro preserves_then_do preserves_finish post)
qed

lemma preserves_FindReference:
  assumes post: "\<And>url body. preserves I Q (doPost env url body)"
  shows "preserves I Q (FindReference env query)"
  unfolding FindReference_def
  by (intro preserves_then_do preserves_GenerateEmbedding preserves_pure post)

lemma preserves_ExpandQuery:
  assumes post: "\<And>url body. preserves I Q (doPost env url body)"
  shows "preserves I Q (ExpandQuery env query)"
  unfolding ExpandQuery_def
  by (intro preserves_then_do preserves_RenderTemplate preserves_GenerateCompletion
      preserves_finish post)

lemma preserves_GenerateCompletionWithCitations:
  assumes post: "\<And>url body. preserves I Q (doPost env url body)"
  shows "preserves I Q (GenerateCompletionWithCitations env query refs)"
  unfolding GenerateCompletionWithCitations_def
  by (intro preserves_then_do preserves_RenderTemplate preserves_GenerateCompletion
      preserves_finish post)

lemma preserves_Handler_loop:
  assumes post: "\<And>url body. preserves I Q (doPost env url body)"
  shows "preserves I Q (Handler_loop env queries refs)"
proof (induction queries arbitrary: refs)
  case Nil
  show ?case by (simp add: preserves_def)
next
  case (Cons query queries)
  have "Handler_loop env (query # queries) refs =
        then_do (FindReference env query) (\<lambda>found. Handler_loop env queries (refs @ found))"
    by (rule ext) (simp add: then_do_def split: prod.splits outcome.splits)
  then show ?case
    by (simp add: preserves_then_do preserves_FindReference post Cons.IH)
qed

lemma preserves_Handler:
  assumes post: "\<And>url body. preserves I Q (doPost env url body)"
  shows "preserves I Q (Handler env r)"
  unfolding Handler_def Let_def
  by (auto intro!: preserves_then_do preserves_RenderTemplate preserves_ExpandQuery
      preserves_Handler_loop preserves_GenerateCompletionWithCitations preserves_finish post)

subsection \<open>The variables\<close>

lemma doPost_references:
  "preserves (\<lambda>s. references s = R \<and> templates s = T \<and> similarityThreshold s = t) (\<lambda>e. False) (doPost env url body)"
  by (auto simp: preserves_def doPost_def split: prod.splits http_result.splits if_splits option.splits)

lemma serve_references:
  "serve env rs s = (out, e, s') \<Longrightarrow> references s' = references s"
proof (induction rs arbitrary: s out e s')
  case Nil
  then show ?case by simp
next
  case (Cons r rs)
  obtain res s1 where h: "Handler env r s = (res, s1)" by (cases "Handler env r s")
  have "references s1 = references s"
    using preservesD [OF preserves_Handler [of "\<lambda>s'. references s' = references s \<and> templates s' = templates s \<and> similarityThreshold s' = similarityThreshold s" "\<lambda>e. False" env r,
          OF doPost_references] _ h] by simp
  with Cons h show ?case
    by (cases res) (auto split: prod.splits)
qed

subsection \<open>Status codes\<close>

lemma doPost_status:
  assumes "records_status env codes"
  shows "preserves (\<lambda>s. all_ok (codes (world s))) status_exit (doPost env url body)"
  unfolding preserves_def
proof (intro allI impI)
  fix s out s'
  assume ok: "all_ok (codes (world s))" and run: "doPost env url body s = (out, s')"
  obtain r w where p: "Post env (world s) url (openAIAPIKey s) body = (r, w)"
    by (cases "Post env (world s) url (openAIAPIKey s) body")
  with assms have rec: "codes w = codes (world s) @ (case r of Response code _ \<Rightarrow> [code] | _ \<Rightarrow> [])"
    unfolding records_status_def by blast
  show "all_ok (codes (world s')) \<or> (\<exists>e. out = Fatal e \<and> status_exit e)"
    using run ok rec p
    by (cases r) (auto simp: doPost_def all_ok_def status_exit_def split: if_splits option.splits)
qed

lemma records_scripted: "records_status scripted_env status_codes"
  by (auto simp: records_status_def scripted_env_def scripted_Post_def status_codes_def split: list.splits)

subsection \<open>Running the scripted world\<close>

lemma scripted_env_simps:
  "LookupEnv scripted_env = [openAIAPIKeyEnv \<mapsto> ''secret'']"
  "ReadDir scripted_env = (\<lambda>w path. if path = referencesPath
                  then Some [\<lparr>Name = ''drafts'', IsDir = True\<rparr>, \<lparr>Name = ''sky.txt'', IsDir = False\<rparr>]
                  else None)"
  "ReadFile scripted_env = (\<lambda>w path. if path = ''references/sky.txt'' then Some (Exerpt sky) else None)"
  "Post scripted_env = scripted_Post"
  "MarshalCompletionRequest scripted_env = (\<lambda>r. Some (last_content r))"
  "MarshalEmbeddingRequest scripted_env = (\<lambda>r. Some (Input r))"
  "UnmarshalCompletionResponse scripted_env = scripted_completion"
  "UnmarshalEmbeddingResponse scripted_env = scripted_embedding"
  "UnmarshalQueryExpansionResponse scripted_env = scripted_expansion"
  "UnmarshalCitedResponse scripted_env = scripted_cited"
  "Escape scripted_env = (\<lambda>e text. text)"
  by (simp_all add: scripted_env_def)

lemmas run_defs = Let_def then_do_def finish_def doPost_def toJSON_def fromJSON_def
  GenerateEmbedding_def GenerateCompletion_def FindReference_def ExpandQuery_def
  GenerateCompletionWithCitations_def RenderTemplate_def Content_def Embedding_of_def
  NewCompletionRequest_def NewEmbeddingRequest_def AddMessage_def
  scripted_env_simps scripted_Post_def scripted_embedding_def scripted_completion_def
  scripted_expansion_def scripted_cited_def last_content_def loaded_def ok_def
  openAICompletionURL_def openAIEmbeddingURL_def openAICompletionSystemPrompt_def
  CalculateSimilarity_def round64_0 round64_1 sky_def

lemmas float_defs = cosine_similarity_def dot_def magnitude_def round64_0 round64_1

lemmas handler_defs = Handler_def post_query_def TMPL_INDEX_def TMPL_PROMPT_EXPAND_QUERY_def
  TMPL_PROMPT_RESPONSE_def Reference_value_def Citation_value_def CitedResponse_value_def
  cites_def citations_impossible_def

lemma startup_scripted:
  "startup scripted_env (initial (ok ''[1,0]'' # script, [])) =
     (Returned (),
      (loaded script)\<lparr>world := (script, [(openAIEmbeddingURL, Exerpt sky, ok ''[1,0]'')])\<rparr>)"
  by (simp add: startup_def run_defs initial_def mustGetEnv_def getEnv_def LoadTemplate_def
      LoadReferences_def openAIAPIKeyEnv_def openAILanguageModelEnv_def
      openAIEmbeddingModelEnv_def referencesPath_def)

subsection \<open>The lookup loop\<close>

lemma FindReference_loop_filter:
  "\<forall>r\<in>set refs. length embedding \<le> length (Embedding r) \<Longrightarrow>
   FindReference_loop threshold embedding refs result =
     Returned (result @
       filter (\<lambda>r. fgt (cosine_similarity embedding (take (length embedding) (Embedding r)))
                      threshold) refs)"
  by (induction refs arbitrary: result) (simp_all add: CalculateSimilarity_prefix)

lemma FindReference_loop_member:
  "FindReference_loop threshold embedding refs result = Returned found \<Longrightarrow> r \<in> set found \<Longrightarrow>
   r \<in> set result \<or>
   (\<exists>similarity. CalculateSimilarity embedding (Embedding r) = Returned similarity \<and>
      fgt similarity threshold)"
proof (induction refs arbitrary: result)
  case Nil
  then show ?case by simp
next
  case (Cons reference refs)
  then show ?case
    by (fastforce split: outcome.splits if_splits)
qed

lemma GenerateEmbedding_variables:
  assumes "GenerateEmbedding env text s = (out, s')"
  shows "references s' = references s \<and> templates s' = templates s \<and>
         similarityThreshold s' = similarityThreshold s"
proof -
  have "preserves (\<lambda>s'. references s' = references s \<and> templates s' = templates s \<and>
           similarityThreshold s' = similarityThreshold s) (\<lambda>e. False) (GenerateEmbedding env text)"
    by (rule preserves_GenerateEmbedding) (rule doPost_references)
  from preservesD [OF this _ assms] show ?thesis by simp
qed

lemma FindReference_unfold:
  assumes "GenerateEmbedding env query s = (Returned embedding, s')"
  shows "FindReference env query s =
         (FindReference_loop (similarityThreshold s) embedding (references s) [], s')"
  using assms GenerateEmbedding_variables [OF assms]
  by (simp add: FindReference_def then_do_def)

subsection \<open>The store\<close>

lemma kept:
  assumes "preserves (\<lambda>s'. references s' = references s \<and> templates s' = templates s \<and>
      similarityThreshold s' = similarityThreshold s) (\<lambda>e. False) m"
    and "m s = (out, s')"
  shows "references s' = references s"
  using preservesD [OF assms(1) _ assms(2)] by simp

lemma LoadReferences_loop_files:
  "LoadReferences_loop env path files s = (Returned u, s') \<Longrightarrow>
   map File (references s') = map File (references s) @ map Name (filter (\<lambda>f. \<not> IsDir f) files)"
proof (induction files arbitrary: s)
  case Nil
  then show ?case by simp
next
  case (Cons entry files)
  show ?case
  proof (cases "IsDir entry")
    case True
    with Cons show ?thesis by simp
  next
    case False
    with Cons.prems obtain content where c: "ReadFile env (world s) (path @ ''/'' @ Name entry) = Some content"
      by (auto split: option.splits)
    with False Cons.prems obtain embedding s1 where
      g: "GenerateEmbedding env content s = (Returned embedding, s1)"
      and l: "LoadReferences_loop env path files
                (s1\<lparr>references := references s1 @
                     [\<lparr>File = Name entry, Exerpt = content, Embedding = embedding\<rparr>]\<rparr>) = (Returned u, s')"
      by (auto split: prod.splits outcome.splits)
    from GenerateEmbedding_variables [OF g] have "references s1 = references s" by simp
    with Cons.IH [OF l] False show ?thesis by simp
  qed
qed

lemma startup_files:
  assumes "startup env (initial w) = (Returned u, s)"
  shows "\<exists>files. ReadDir env w referencesPath = Some files \<and>
           map File (references s) = map Name (filter (\<lambda>f. \<not> IsDir f) files)"
proof -
  from assms obtain key where k: "LookupEnv env openAIAPIKeyEnv = Some key"
    by (auto simp: startup_def then_do_def finish_def mustGetEnv_def split: option.splits)
  define s3 where "s3 = (initial w)\<lparr>openAIAPIKey := key,
     openAILanguageModel := getEnv env openAILanguageModelEnv openAILanguageModelDefault,
     openAIEmbeddingModel := getEnv env openAIEmbeddingModelEnv openAIEmbeddingModelDefault,
     templates := [''index'' \<mapsto> TMPL_INDEX, ''expand'' \<mapsto> TMPL_PROMPT_EXPAND_QUERY,
                   ''response'' \<mapsto> TMPL_PROMPT_RESPONSE]\<rparr>"
  have "startup env (initial w) = LoadReferences env referencesPath s3"
    using k by (simp add: startup_def then_do_def finish_def mustGetEnv_def LoadTemplate_def
        initial_def s3_def Let_def)
  with assms have l: "LoadReferences env referencesPath s3 = (Returned u, s)" by simp
  then obtain files where f: "ReadDir env (world s3) referencesPath = Some files"
    and ll: "LoadReferences_loop env referencesPath files s3 = (Returned u, s)"
    by (auto simp: LoadReferences_def split: option.splits)
  from LoadReferences_loop_files [OF ll] f show ?thesis
    by (simp add: s3_def initial_def)
qed

subsection \<open>Scripted runs\<close>

lemma run_B:
  "fst (Handler scripted_env (post_query ''why is the sky blue?'') (loaded script_B)) =
     Fatal (UnexpectedStatusCode 503)"
  "status_codes (world (snd (Handler scripted_env (post_query ''why is the sky blue?'')
     (loaded script_B)))) = [200, 503]"
  by (simp_all add: run_defs handler_defs script_B_def status_codes_def)

subsection \<open>The prompt of the cited answer\<close>

lemma exec_reference:
  "exec esc [Text a, Action HTMLText [''File''], Text b, Action HTMLText [''Exerpt''], Text c]
     (Reference_value r) =
   Some (a @ esc HTMLText (File r) @ b @ esc HTMLText (Exerpt r) @ c)"
  by (simp add: Reference_value_def)

lemma exec_each_references:
  "\<exists>out. exec_each esc
      [Text a, Action HTMLText [''File''], Text b, Action HTMLText [''Exerpt''], Text c]
      (map Reference_value refs) = Some out"
proof (induction refs)
  case Nil
  show ?case by simp
next
  case (Cons r refs)
  then obtain out where "exec_each esc
      [Text a, Action HTMLText [''File''], Text b, Action HTMLText [''Exerpt''], Text c]
      (map Reference_value refs) = Some out" by blast
  then show ?case
    by (simp only: list.map exec_each.simps exec_reference option.case) blast
qed

lemma response_prompt:
  "\<exists>prompt.
     exec esc TMPL_PROMPT_RESPONSE
       (VMap [(''Query'', VString query), (''References'', VSlice (map Reference_value refs))]) =
       Some prompt \<and>
     sublist citations_impossible prompt"
proof -
  obtain out where "exec_each esc
      [Text (''\<newline>'' @ ''- File: ''), Action HTMLText [''File''],
       Text (''\<newline>'' @ ''- Exerpt: ''), Action HTMLText [''Exerpt''], Text ''\<newline>'']
      (map Reference_value refs) = Some out"
    using exec_each_references by blast
  then have "\<exists>rest. exec esc TMPL_PROMPT_RESPONSE
       (VMap [(''Query'', VString query), (''References'', VSlice (map Reference_value refs))]) =
     Some ((''\<newline>'' @ ''INSTRUCTIONS\<newline>'' @ ''\<newline>'' @
           ''Respond to the following QUERY using REFERENCES below. Cite the a file in the\<newline>'' @
           ''REFERENCES that contains the fact used. Provide uncited commentary separately.\<newline>'') @
           citations_impossible @ rest)"
    by (simp add: TMPL_PROMPT_RESPONSE_def)
  then show ?thesis
    by (metis sublist_appendI)
qed

lemma GenerateCompletionWithCitations_unfold:
  assumes "RenderTemplate env ''response''
             [(''Query'', VString query), (''References'', VSlice (map Reference_value refs))] s =
           (Returned prompt, s)"
  shows "GenerateCompletionWithCitations env query refs s =
         then_do (GenerateCompletion env prompt)
           (\<lambda>response. finish (fromJSON (UnmarshalCitedResponse env) response)) s"
  using assms by (simp add: GenerateCompletionWithCitations_def then_do_def)

lemma GenerateCompletion_unfold:
  assumes "MarshalCompletionRequest env
             (AddMessage (AddMessage (NewCompletionRequest s) ''system'' openAICompletionSystemPrompt)
                ''user'' prompt) = Some json"
    and "doPost env openAICompletionURL json s = (Returned body, s')"
  shows "GenerateCompletion env prompt s =
         (case UnmarshalCompletionResponse env body of
            None \<Rightarrow> (Fatal FailedToUnmarshal, s')
          | Some completionResponse \<Rightarrow> (Content completionResponse, s'))"
  using assms
  by (simp add: GenerateCompletion_def Let_def then_do_def finish_def toJSON_def fromJSON_def
      split: option.splits)

lemma why_prompt:
  "RenderTemplate scripted_env ''response''
     [(''Query'', VString ''why?''), (''References'', VSlice (map Reference_value []))]
     (loaded script) = (Returned why_prompt, loaded script)"
  by (simp add: why_prompt_def RenderTemplate_def loaded_def scripted_env_simps
      TMPL_PROMPT_RESPONSE_def)

section \<open>The claims\<close>

subsection \<open>C1: verification of the citations\<close>

text \<open>
  C1 says that every reference of the answer is checked against the fact store and
  that one whose file is not in the store is flagged. The handler renders the
  answer as it was decoded, without looking any file up. Here the store holds
  \<open>sky.txt\<close> only; the answer cites \<open>ghost.txt\<close>, and the page links to it exactly
  as the page of an answer citing \<open>sky.txt\<close> links to that file.
\<close>

theorem citation_of_absent_file_not_flagged:
  "map File (references (loaded script_A)) = [''sky.txt''] \<and>
   fst (Handler scripted_env (post_query ''why is the sky blue?'') (loaded script_A)) =
     Returned (Write (answer_page ''ghost.txt'')) \<and>
   fst (Handler scripted_env (post_query ''why is the sky blue?'') (loaded script_C)) =
     Returned (Write (answer_page ''sky.txt''))"
  by (simp add: run_defs handler_defs script_A_def script_C_def answer_page_def)

subsection \<open>C2: duplicates among the candidates\<close>

text \<open>
  C2 says that the candidates handed to the composer hold no file twice. Here the
  expansion gives two queries that both match \<open>sky.txt\<close>, and the handler's loop
  collects the reference twice. Within one lookup, too, a file that is twice in the
  store is returned twice: the inner loop of the lookup has no effect.
\<close>

theorem duplicate_candidates:
  "fst (ExpandQuery scripted_env ''why is the sky blue?'' (loaded script_A)) =
     Returned \<lparr>Queries = [''v1'', ''v2'']\<rparr> \<and>
   fst (Handler_loop scripted_env [''v1'', ''v2''] []
          (snd (ExpandQuery scripted_env ''why is the sky blue?'' (loaded script_A)))) =
     Returned [sky, sky] \<and>
   map File [sky, sky] = [''sky.txt'', ''sky.txt''] \<and>
   FindReference_loop (Fin (1 / 2)) [Fin 1, Fin 0] [sky, sky] [] = Returned [sky, sky]"
  by (simp add: run_defs handler_defs script_A_def)

subsection \<open>C3: a malformed completion\<close>

text \<open>
  C3, as amended. When the body of the provider's response, or the content of its
  first choice, does not unmarshal, composing the cited answer ends the process
  with the fatal error \<open>failed to unmarshal\<close>; nothing is returned to the caller.
  What unmarshals is returned as the answer as it is. The prompt was rendered,
  the request marshalled and the POST answered with status 200.
\<close>

theorem malformed_completion_exits:
  assumes "RenderTemplate env ''response''
             [(''Query'', VString query), (''References'', VSlice (map Reference_value refs))] s =
           (Returned prompt, s)"
    and "MarshalCompletionRequest env
           (AddMessage (AddMessage (NewCompletionRequest s) ''system'' openAICompletionSystemPrompt)
              ''user'' prompt) = Some json"
    and "doPost env openAICompletionURL json s = (Returned body, s')"
  shows "(UnmarshalCompletionResponse env body = None \<longrightarrow>
            GenerateCompletionWithCitations env query refs s = (Fatal FailedToUnmarshal, s')) \<and>
         (\<forall>completionResponse content.
            UnmarshalCompletionResponse env body = Some completionResponse \<and>
            Content completionResponse = Returned content \<and>
            UnmarshalCitedResponse env content = None \<longrightarrow>
            GenerateCompletionWithCitations env query refs s = (Fatal FailedToUnmarshal, s')) \<and>
         (\<forall>completionResponse content cited.
            UnmarshalCompletionResponse env body = Some completionResponse \<and>
            Content completionResponse = Returned content \<and>
            UnmarshalCitedResponse env content = Some cited \<longrightarrow>
            GenerateCompletionWithCitations env query refs s = (Returned cited, s'))"
  using GenerateCompletion_unfold [OF assms(2) assms(3)]
  by (simp add: GenerateCompletionWithCitations_unfold [OF assms(1)] then_do_def finish_def
      fromJSON_def)

theorem malformed_completion_exits_witness:
  "fst (GenerateCompletionWithCitations scripted_env ''why?'' [] (loaded [ok ''oops''])) =
     Fatal FailedToUnmarshal \<and>
   fst (GenerateCompletionWithCitations scripted_env ''why?'' [] (loaded [ok ''{oops''])) =
     Fatal FailedToUnmarshal \<and>
   fst (GenerateCompletionWithCitations scripted_env ''why?'' [] (loaded [ok ''{sky}''])) =
     Returned (cites ''sky.txt'')"
proof -
  have m: "MarshalCompletionRequest scripted_env
           (AddMessage (AddMessage (NewCompletionRequest (loaded script)) ''system''
              openAICompletionSystemPrompt) ''user'' why_prompt) = Some why_prompt" for script
    by (simp add: scripted_env_simps last_content_def AddMessage_def NewCompletionRequest_def)
  have p: "doPost scripted_env openAICompletionURL why_prompt (loaded [ok body]) =
           (Returned body, (loaded [])\<lparr>world := ([], [(openAICompletionURL, why_prompt, ok body)])\<rparr>)"
    for body
    by (simp add: doPost_def scripted_env_simps scripted_Post_def loaded_def ok_def)
  show ?thesis
    using malformed_completion_exits [OF why_prompt m p, of "''oops''", THEN conjunct1]
      malformed_completion_exits [OF why_prompt m p, of "''{oops''", THEN conjunct2, THEN conjunct1]
      malformed_completion_exits [OF why_prompt m p, of "''{sky}''", THEN conjunct2, THEN conjunct2]
    by (simp add: scripted_env_simps scripted_completion_def scripted_cited_def Content_def)
qed

text \<open>
  C3 as stated fails: a body that is no JSON ends the process, a response without
  choices panics, and the server replies to nothing after the malformed answer.
\<close>

theorem malformed_completion_counterexample:
  "fst (GenerateCompletionWithCitations scripted_env ''why?'' [] (loaded [ok ''oops''])) =
     Fatal FailedToUnmarshal \<and>
   fst (GenerateCompletionWithCitations scripted_env ''why?'' [] (loaded [ok ''no choices''])) =
     Panic IndexOutOfRange \<and>
   fst (serve scripted_env [post_query ''why?'', get_index] (loaded [ok ''{}'', ok ''oops''])) = [] \<and>
   fst (snd (serve scripted_env [post_query ''why?'', get_index] (loaded [ok ''{}'', ok ''oops'']))) =
     Some FailedToUnmarshal"
  by (simp add: run_defs handler_defs get_index_def)

subsection \<open>C4: a provider failure while handling a request\<close>

text \<open>
  C4, as amended. When a call to the provider made while handling a request gets a
  response with a status other than 200, the handler ends the process with the
  fatal error \<open>unexpected status code\<close>: nothing is returned to the request's
  caller, and no later request is served. The world is taken to keep the list of
  the status codes it has answered with, all 200 before the request.
\<close>

theorem provider_failure_exits:
  assumes "records_status env codes"
    and "all_ok (codes (world s))"
    and "Handler env r s = (out, s')"
    and "\<not> all_ok (codes (world s'))"
  shows "\<exists>c. c \<noteq> 200 \<and> out = Fatal (UnexpectedStatusCode c) \<and>
             serve env (r # rs) s = ([], Some (UnexpectedStatusCode c), s')"
proof -
  have "preserves (\<lambda>s. all_ok (codes (world s))) status_exit (Handler env r)"
    by (rule preserves_Handler) (rule doPost_status [OF assms(1)])
  from preservesD [OF this assms(2) assms(3)] assms(4)
  obtain e where "out = Fatal e" "status_exit e" by auto
  then show ?thesis using assms(3)
    by (cases e) (auto simp: status_exit_def)
qed

theorem provider_failure_exits_witness:
  "fst (serve scripted_env [post_query ''why is the sky blue?'', get_index] (loaded script_B)) = [] \<and>
   fst (snd (serve scripted_env [post_query ''why is the sky blue?'', get_index] (loaded script_B))) =
     Some (UnexpectedStatusCode 503)"
proof -
  have a: "all_ok (status_codes (world (loaded script_B)))"
    by (simp add: all_ok_def status_codes_def loaded_def)
  have b: "\<not> all_ok (status_codes (world (snd (Handler scripted_env
      (post_query ''why is the sky blue?'') (loaded script_B)))))"
    by (simp add: run_B all_ok_def)
  from provider_failure_exits [OF records_scripted a prod.collapse [symmetric] b, of "[get_index]"]
  show ?thesis by (auto simp: run_B)
qed

text \<open>
  C4 as stated fails: the embedding call of the first request is answered with
  503; the handler ends the process, and the request after it, which is answered
  when it comes alone, gets no reply.
\<close>

theorem provider_failure_counterexample:
  "fst (Handler scripted_env (post_query ''why is the sky blue?'') (loaded script_B)) =
     Fatal (UnexpectedStatusCode 503) \<and>
   fst (serve scripted_env [post_query ''why is the sky blue?'', get_index] (loaded script_B)) = [] \<and>
   length (fst (serve scripted_env [get_index] (loaded script_B))) = 1"
  by (simp add: run_defs handler_defs script_B_def get_index_def)



subsection \<open>C5: the original query among the expanded queries\<close>

text \<open>
  C5 says that the queries used for retrieval always include the original query.
  The handler looks up the queries of the expansion only. Here the expansion gives
  \<open>v1\<close> and \<open>v2\<close>, and these two are all that is ever embedded while the request
  is handled: the original query is not.
\<close>

theorem original_query_not_used:
  "fst (ExpandQuery scripted_env ''why is the sky blue?'' (loaded script_A)) =
     Returned \<lparr>Queries = [''v1'', ''v2'']\<rparr> \<and>
   embedded_texts (world (snd (Handler scripted_env (post_query ''why is the sky blue?'')
     (loaded script_A)))) = [''v1'', ''v2'']"
  by (simp add: run_defs handler_defs script_A_def embedded_texts_def)


subsection \<open>C6: the similarity lookup\<close>

text \<open>
  C6. For every query embedding and every threshold, the lookup returns exactly the
  stored references whose cosine similarity with the query embedding is strictly
  greater than the threshold, in the order of the store. The query embedding is
  what \<^verbatim>\<open>GenerateEmbedding\<close> returned for the query, the threshold and the store
  are those of the state, and every stored embedding has the dimension of the
  query embedding (the invariant of the fact store).
\<close>

theorem FindReference_filter:
  assumes "GenerateEmbedding env query s = (Returned embedding, s')"
    and "\<forall>r\<in>set (references s). length (Embedding r) = length embedding"
  shows "FindReference env query s =
         (Returned (filter (\<lambda>r. fgt (cosine_similarity embedding (Embedding r))
                                  (similarityThreshold s)) (references s)), s')"
proof -
  from assms(2) have le: "\<forall>r\<in>set (references s). length embedding \<le> length (Embedding r)"
    by simp
  have "filter (\<lambda>r. fgt (cosine_similarity embedding (take (length embedding) (Embedding r)))
                       (similarityThreshold s)) (references s) =
        filter (\<lambda>r. fgt (cosine_similarity embedding (Embedding r)) (similarityThreshold s))
          (references s)"
    using assms(2) by (intro filter_cong) simp_all
  with FindReference_loop_filter [OF le, of "similarityThreshold s" "[]"]
  show ?thesis by (simp add: FindReference_unfold [OF assms(1)])
qed

theorem FindReference_filter_witness:
  "FindReference scripted_env ''v1'' ((loaded [ok ''[1,0]''])\<lparr>references := [sun, sea, sky]\<rparr>) =
     (Returned [sun, sky],
      (loaded [])\<lparr>references := [sun, sea, sky],
                  world := ([], [(openAIEmbeddingURL, ''v1'', ok ''[1,0]'')])\<rparr>)"
proof -
  have g: "GenerateEmbedding scripted_env ''v1''
             ((loaded [ok ''[1,0]''])\<lparr>references := [sun, sea, sky]\<rparr>) =
     (Returned [Fin 1, Fin 0],
      (loaded [])\<lparr>references := [sun, sea, sky],
                  world := ([], [(openAIEmbeddingURL, ''v1'', ok ''[1,0]'')])\<rparr>)"
    by (simp add: run_defs sea_def sun_def)
  have d: "\<forall>r\<in>set (references ((loaded [ok ''[1,0]''])\<lparr>references := [sun, sea, sky]\<rparr>)).
             length (Embedding r) = length [Fin 1, Fin 0 :: float64]"
    by (simp add: sky_def sea_def sun_def)
  show ?thesis
    using FindReference_filter [OF g d]
    by (simp add: float_defs sky_def sea_def sun_def loaded_def)
qed

subsection \<open>C7: vectors of different dimensions\<close>

text \<open>
  C7, as amended. \<^verbatim>\<open>CalculateSimilarity\<close> has no check of the dimensions. When \<open>b\<close>
  is shorter than \<open>a\<close> it panics with an index out of range; when \<open>b\<close> is longer
  than \<open>a\<close> it returns the cosine similarity of \<open>a\<close> and the first \<open>length a\<close>
  components of \<open>b\<close>.
\<close>

theorem CalculateSimilarity_mismatched:
  "(length b < length a \<longrightarrow> CalculateSimilarity a b = Panic IndexOutOfRange) \<and>
   (length a < length b \<longrightarrow>
      CalculateSimilarity a b = Returned (cosine_similarity a (take (length a) b)))"
  by (simp add: CalculateSimilarity_short CalculateSimilarity_prefix)

theorem CalculateSimilarity_mismatched_witness:
  "CalculateSimilarity [Fin 1, Fin 0] [Fin 1] = Panic IndexOutOfRange \<and>
   CalculateSimilarity [Fin 1] [Fin 1, Fin 0] = Returned (cosine_similarity [Fin 1] [Fin 1])"
  using CalculateSimilarity_mismatched [of "[Fin 1]" "[Fin 1, Fin 0]"]
    CalculateSimilarity_mismatched [of "[Fin 1, Fin 0]" "[Fin 1]"]
  by simp

text \<open>
  C7 as stated fails: with mismatched dimensions the computation panics at one
  input and silently returns a value at another, the same value as for the
  matching prefix.
\<close>

theorem CalculateSimilarity_mismatched_counterexample:
  "CalculateSimilarity [Fin 1, Fin 0] [Fin 1] = Panic IndexOutOfRange \<and>
   CalculateSimilarity [Fin 1] [Fin 1, Fin 0] = Returned (Fin 1) \<and>
   CalculateSimilarity [Fin 1] [Fin 1] = Returned (Fin 1)"
  by (simp add: CalculateSimilarity_def round64_0 round64_1)

subsection \<open>C8: no candidates\<close>

text \<open>
  C8, as amended. When the candidate set is empty, the prompt sent to the provider
  holds the sentence that without references citations are impossible, and the
  answer is what the provider's completion decodes to, with the citations it has.
\<close>

theorem empty_candidates:
  assumes "templates s ''response'' = Some TMPL_PROMPT_RESPONSE"
  shows "\<exists>prompt.
           RenderTemplate env ''response''
             [(''Query'', VString query), (''References'', VSlice [])] s =
             (Returned prompt, s) \<and>
           sublist citations_impossible prompt \<and>
           (\<forall>content s' cited.
              GenerateCompletion env prompt s = (Returned content, s') \<and>
              UnmarshalCitedResponse env content = Some cited \<longrightarrow>
              GenerateCompletionWithCitations env query [] s = (Returned cited, s'))"
proof -
  from response_prompt [of "Escape env" query "[]"] obtain prompt where
    p: "exec (Escape env) TMPL_PROMPT_RESPONSE
          (VMap [(''Query'', VString query), (''References'', VSlice [])]) =
        Some prompt"
    and i: "sublist citations_impossible prompt"
    by auto
  from p assms have r: "RenderTemplate env ''response''
             [(''Query'', VString query), (''References'', VSlice [])] s =
             (Returned prompt, s)"
    by (simp add: RenderTemplate_def)
  then have "GenerateCompletionWithCitations env query [] s =
         then_do (GenerateCompletion env prompt)
           (\<lambda>response. finish (fromJSON (UnmarshalCitedResponse env) response)) s"
    by (intro GenerateCompletionWithCitations_unfold) simp
  then have "GenerateCompletionWithCitations env query [] s = (Returned cited, s')"
    if "GenerateCompletion env prompt s = (Returned content, s') \<and>
        UnmarshalCitedResponse env content = Some cited" for content s' cited
    using that by (simp add: then_do_def finish_def fromJSON_def)
  with r i show ?thesis by blast
qed

theorem empty_candidates_witness:
  "sublist citations_impossible
     (case fst (RenderTemplate scripted_env ''response''
             [(''Query'', VString ''why?''), (''References'', VSlice [])] (loaded [ok ''{}''])) of
        Returned prompt \<Rightarrow> prompt | _ \<Rightarrow> []) \<and>
   fst (GenerateCompletionWithCitations scripted_env ''why?'' [] (loaded [ok ''{}''])) =
     Returned \<lparr>Commentary = [], Citations = []\<rparr>"
proof -
  have t: "templates (loaded [ok ''{}'']) ''response'' = Some TMPL_PROMPT_RESPONSE"
    by (simp add: loaded_def)
  from empty_candidates [OF t, of scripted_env "''why?''"] obtain prompt where
    r: "RenderTemplate scripted_env ''response''
             [(''Query'', VString ''why?''), (''References'', VSlice [])]
             (loaded [ok ''{}'']) = (Returned prompt, loaded [ok ''{}''])"
    and i: "sublist citations_impossible prompt"
    and g: "\<And>content s' cited.
              GenerateCompletion scripted_env prompt (loaded [ok ''{}'']) = (Returned content, s') \<Longrightarrow>
              UnmarshalCitedResponse scripted_env content = Some cited \<Longrightarrow>
              GenerateCompletionWithCitations scripted_env ''why?'' [] (loaded [ok ''{}'']) =
                (Returned cited, s')"
    by blast
  have c: "GenerateCompletion scripted_env prompt (loaded [ok ''{}'']) =
           (Returned ''{}'', (loaded [])\<lparr>world := ([], [(openAICompletionURL, prompt, ok ''{}'')])\<rparr>)"
    by (simp add: run_defs)
  have u: "UnmarshalCitedResponse scripted_env ''{}'' = Some \<lparr>Commentary = [], Citations = []\<rparr>"
    by (simp add: scripted_env_simps scripted_cited_def)
  from g [OF c u] r i show ?thesis by simp
qed

text \<open>
  C8 as stated fails: with no candidates, a completion that cites a file gives an
  answer with one citation.
\<close>

theorem empty_candidates_counterexample:
  "fst (GenerateCompletionWithCitations scripted_env ''why is the sky blue?'' []
          (loaded [ok ''{ghost}''])) = Returned (cites ''ghost.txt'') \<and>
   length (Citations (cites ''ghost.txt'')) = 1"
  by (simp add: run_defs TMPL_PROMPT_RESPONSE_def citations_impossible_def cites_def)

subsection \<open>C9: the fact store is read-only after startup\<close>

text \<open>
  C9. The fact store is populated at startup and read-only afterwards. Query
  expansion, the similarity lookup, the composition of the answer, rendering, the
  handler as a whole and the server over any list of requests leave the stored
  references as they were, however they end. After a startup that returned, the
  store holds one reference per regular file of the references directory, and
  after serving any requests it is still the store that startup left.
\<close>

theorem fact_store_read_only:
  "(ExpandQuery env query s = (out1, s1) \<longrightarrow> references s1 = references s) \<and>
   (FindReference env query s = (out2, s2) \<longrightarrow> references s2 = references s) \<and>
   (GenerateCompletionWithCitations env query refs s = (out3, s3) \<longrightarrow>
      references s3 = references s) \<and>
   (RenderTemplate env name data s = (out4, s4) \<longrightarrow> references s4 = references s) \<and>
   (Handler env r s = (out5, s5) \<longrightarrow> references s5 = references s) \<and>
   (serve env requests s = (replies, ex, s6) \<longrightarrow> references s6 = references s) \<and>
   (startup env (initial w) = (Returned u, s0) \<and> main env requests w = (replies', ex', s') \<longrightarrow>
      references s' = references s0 \<and>
      (\<exists>files. ReadDir env w referencesPath = Some files \<and>
         map File (references s0) = map Name (filter (\<lambda>f. \<not> IsDir f) files)))"
proof (intro conjI impI)
  assume "ExpandQuery env query s = (out1, s1)"
  then show "references s1 = references s"
    by (rule kept [OF preserves_ExpandQuery [OF doPost_references]])
next
  assume "FindReference env query s = (out2, s2)"
  then show "references s2 = references s"
    by (rule kept [OF preserves_FindReference [OF doPost_references]])
next
  assume "GenerateCompletionWithCitations env query refs s = (out3, s3)"
  then show "references s3 = references s"
    by (rule kept [OF preserves_GenerateCompletionWithCitations [OF doPost_references]])
next
  assume "RenderTemplate env name data s = (out4, s4)"
  then show "references s4 = references s"
    by (rule kept [OF preserves_RenderTemplate])
next
  assume "Handler env r s = (out5, s5)"
  then show "references s5 = references s"
    by (rule kept [OF preserves_Handler [OF doPost_references]])
next
  assume "serve env requests s = (replies, ex, s6)"
  then show "references s6 = references s"
    by (rule serve_references)
next
  assume h: "startup env (initial w) = (Returned u, s0) \<and> main env requests w = (replies', ex', s')"
  then obtain e where "serve env requests s0 = (replies', e, s')"
    by (auto simp: main_def split: prod.splits)
  then show "references s' = references s0"
    by (rule serve_references)
next
  assume h: "startup env (initial w) = (Returned u, s0) \<and> main env requests w = (replies', ex', s')"
  then show "\<exists>files. ReadDir env w referencesPath = Some files \<and>
         map File (references s0) = map Name (filter (\<lambda>f. \<not> IsDir f) files)"
    by (intro startup_files [of env w u s0]) simp
qed


theorem fact_store_read_only_witness:
  "references (snd (ExpandQuery scripted_env ''q'' (loaded script_A))) = [sky] \<and>
   references (snd (FindReference scripted_env ''q'' (loaded script_A))) = [sky] \<and>
   references (snd (GenerateCompletionWithCitations scripted_env ''q'' [sky] (loaded script_A))) = [sky] \<and>
   references (snd (RenderTemplate scripted_env ''index'' [] (loaded script_A))) = [sky] \<and>
   references (snd (Handler scripted_env (post_query ''q'') (loaded script_A))) = [sky] \<and>
   references (snd (snd (serve scripted_env [post_query ''q'', post_query ''r''] (loaded script_A)))) = [sky] \<and>
   references (snd (snd (main scripted_env [post_query ''q'', post_query ''r'']
                      (ok ''[1,0]'' # script_A, [])))) = [sky] \<and>
   ReadDir scripted_env (ok ''[1,0]'' # script_A, []) referencesPath =
     Some [\<lparr>Name = ''drafts'', IsDir = True\<rparr>, \<lparr>Name = ''sky.txt'', IsDir = False\<rparr>]"
  using fact_store_read_only [of scripted_env "''q''" "loaded script_A"
      "fst (ExpandQuery scripted_env ''q'' (loaded script_A))"
      "snd (ExpandQuery scripted_env ''q'' (loaded script_A))"
      "fst (FindReference scripted_env ''q'' (loaded script_A))"
      "snd (FindReference scripted_env ''q'' (loaded script_A))"
      "[sky]"
      "fst (GenerateCompletionWithCitations scripted_env ''q'' [sky] (loaded script_A))"
      "snd (GenerateCompletionWithCitations scripted_env ''q'' [sky] (loaded script_A))"
      "''index''" "[]"
      "fst (RenderTemplate scripted_env ''index'' [] (loaded script_A))"
      "snd (RenderTemplate scripted_env ''index'' [] (loaded script_A))"
      "post_query ''q''"
      "fst (Handler scripted_env (post_query ''q'') (loaded script_A))"
      "snd (Handler scripted_env (post_query ''q'') (loaded script_A))"
      "[post_query ''q'', post_query ''r'']"
      "fst (serve scripted_env [post_query ''q'', post_query ''r''] (loaded script_A))"
      "fst (snd (serve scripted_env [post_query ''q'', post_query ''r''] (loaded script_A)))"
      "snd (snd (serve scripted_env [post_query ''q'', post_query ''r''] (loaded script_A)))"
      "(ok ''[1,0]'' # script_A, [])" "()"
      "(loaded script_A)\<lparr>world := (script_A, [(openAIEmbeddingURL, Exerpt sky, ok ''[1,0]'')])\<rparr>"
      "fst (main scripted_env [post_query ''q'', post_query ''r''] (ok ''[1,0]'' # script_A, []))"
      "fst (snd (main scripted_env [post_query ''q'', post_query ''r''] (ok ''[1,0]'' # script_A, [])))"
      "snd (snd (main scripted_env [post_query ''q'', post_query ''r''] (ok ''[1,0]'' # script_A, [])))"]
    startup_scripted [of script_A]
  by (simp add: loaded_def scripted_env_simps referencesPath_def)

subsection \<open>C10: vectors of magnitude zero\<close>

text \<open>
  C10, as amended. For vectors \<open>a\<close> and \<open>b\<close> of equal dimension, when every
  component of \<open>a\<close> or every component of \<open>b\<close> is zero, \<^verbatim>\<open>CalculateSimilarity\<close>
  returns NaN; and a reference that the lookup returns never has the score NaN.
\<close>

theorem zero_magnitude_NaN:
  "(length a = length b \<and> (zero_vector a \<or> zero_vector b) \<longrightarrow>
      CalculateSimilarity a b = Returned NaN) \<and>
   (GenerateEmbedding env query s = (Returned embedding, s1) \<and>
    FindReference env query s = (Returned found, s2) \<and> r \<in> set found \<longrightarrow>
      CalculateSimilarity embedding (Embedding r) \<noteq> Returned NaN)"
proof (intro conjI impI)
  assume "length a = length b \<and> (zero_vector a \<or> zero_vector b)"
  then show "CalculateSimilarity a b = Returned NaN"
    by (auto simp: CalculateSimilarity_cosine cosine_zero_l cosine_zero_r)
next
  assume h: "GenerateEmbedding env query s = (Returned embedding, s1) \<and>
    FindReference env query s = (Returned found, s2) \<and> r \<in> set found"
  then have g: "GenerateEmbedding env query s = (Returned embedding, s1)" by simp
  from h have "FindReference_loop (similarityThreshold s) embedding (references s) [] = Returned found"
    by (simp add: FindReference_unfold [OF g])
  from FindReference_loop_member [OF this] h
  obtain similarity where "CalculateSimilarity embedding (Embedding r) = Returned similarity"
    "fgt similarity (similarityThreshold s)" by auto
  then show "CalculateSimilarity embedding (Embedding r) \<noteq> Returned NaN"
    by auto
qed

theorem zero_magnitude_NaN_witness:
  "CalculateSimilarity [Fin 0, Fin 0] [Fin 1, Fin 0] = Returned NaN \<and>
   CalculateSimilarity [Fin 1, Fin 0] [Fin 0, Fin 0] = Returned NaN \<and>
   fst (FindReference scripted_env ''v1'' (loaded [ok ''[1,0]''])) = Returned [sky] \<and>
   CalculateSimilarity [Fin 1, Fin 0] (Embedding sky) \<noteq> Returned NaN \<and>
   fst (FindReference scripted_env ''v0'' (loaded [ok ''[0,0]''])) = Returned []"
proof -
  have g: "GenerateEmbedding scripted_env ''v1'' (loaded [ok ''[1,0]'']) =
     (Returned [Fin 1, Fin 0], (loaded [])\<lparr>world := ([], [(openAIEmbeddingURL, ''v1'', ok ''[1,0]'')])\<rparr>)"
    by (simp add: run_defs)
  have f: "FindReference scripted_env ''v1'' (loaded [ok ''[1,0]'']) =
     (Returned [sky], (loaded [])\<lparr>world := ([], [(openAIEmbeddingURL, ''v1'', ok ''[1,0]'')])\<rparr>)"
    by (simp add: run_defs)
  have z: "fst (FindReference scripted_env ''v0'' (loaded [ok ''[0,0]''])) = Returned []"
    by (simp add: run_defs inf_of_sign_def)
  show ?thesis
    using zero_magnitude_NaN [of "[Fin 0, Fin 0]" "[Fin 1, Fin 0]", THEN conjunct1]
      zero_magnitude_NaN [of "[Fin 1, Fin 0]" "[Fin 0, Fin 0]", THEN conjunct1]
      zero_magnitude_NaN [of _ _ scripted_env "''v1''" "loaded [ok ''[1,0]'']" "[Fin 1, Fin 0]" _ "[sky]" _ sky, THEN conjunct2]
      g f z
    by (simp add: zero_vector_def)
qed

text \<open>
  C10 as stated fails for the magnitude that the code computes: the squares of the
  components of \<open>[2 powi - 600]\<close> underflow, so its computed magnitude is zero though
  the vector is not; its dot product with \<open>[1]\<close> is not zero, the quotient is
  \<open>+Inf\<close> and not NaN, and the lookup returns the fact.
\<close>

theorem zero_magnitude_NaN_counterexample:
  "magnitude [Fin (2 powi (- 600))] = Fin 0 \<and>
   CalculateSimilarity [Fin (2 powi (- 600))] (Embedding axis) = Returned PInf \<and>
   FindReference_loop (Fin (1 / 2)) [Fin (2 powi (- 600))] [axis] [] = Returned [axis]"
proof -
  have sq: "(2::real) powi (- 600) * 2 powi (- 600) = 2 powi (- 1200)"
    by (simp add: power_int_add [symmetric])
  have z: "round64 (2 powi (- 1200)) = Fin 0"
    by (rule round64_underflow) simp
  have s: "round64 (2 powi (- 600)) = Fin (2 powi (- 600))"
    by (rule round64_powi) simp_all
  have p: "(0::real) < 2 powi (- 600)"
    by (rule zero_less_power_int) simp
  show ?thesis
    using p
    by (simp add: CalculateSimilarity_def magnitude_def dot_def sq z s round64_0 round64_1
        inf_of_sign_def axis_def del: power_int_numeral_neg_numeral)
qed

end
